theory Spec2Isabelle
  imports Complex_Main "HOL-Library.Sublist"
begin

section \<open>Values, results and the environment of the script\<close>

text \<open>
  The script \<^verbatim>\<open>reindex_concurrently.py\<close> talks to a PostgreSQL server through one
  psycopg2 cursor and reads the wall clock. Both are outside the program, so they are
  oracles here: the \<open>n\<close>-th statement handed to \<^verbatim>\<open>cur.execute\<close> gets the outcome
  \<open>db env n q\<close>, and the \<open>n\<close>-th call of \<^verbatim>\<open>time.time()\<close> returns \<open>clock env n\<close>.
  Every theorem below holds for all oracles, hence for every server behaviour.

  A cell of a result row is a Python value as the driver delivers it.
\<close>

datatype val = VStr string | VBool bool | VInt int | VNull

type_synonym row = "val list"

text \<open>
  What \<^verbatim>\<open>cur.execute\<close> can do: return with a result set, return without one (a
  command), raise \<^verbatim>\<open>QueryCanceledError\<close>, raise another \<^verbatim>\<open>psycopg2.Error\<close> (with
  its text), or raise anything else (with the text of \<^verbatim>\<open>sys.exc_info()[0]\<close>).
\<close>

datatype outcome =
    Rows "row list"
  | Done
  | QueryCanceled
  | DbError string
  | OtherFailure string

text \<open>The exceptions that leave a function of the script.\<close>

datatype error =
    Unexpected string
  | ProgrammingError
  | IndexError
  | TypeError

text \<open>
  What the run does to the outside, in order: a statement sent to the server, a statement
  printed in dry-run mode (\<^verbatim>\<open>_print("SQL: " + q, "DRY-RUN")\<close>), a report line of
  \<^verbatim>\<open>dbquery\<close> (mode and message), and a \<^verbatim>\<open>time.sleep\<close>. The progress lines of
  \<^verbatim>\<open>_print\<close>, \<^verbatim>\<open>verbose_print\<close> and \<^verbatim>\<open>debug_print\<close> only write to standard output
  and take no part in the control flow; they are not recorded.
\<close>

datatype event =
    Executed string
  | Printed string
  | Reported string string
  | Slept int

record config =
  dryrun :: bool
  enforcetime :: bool
  retries :: int
  pause_time :: int
  ignorelist :: "string list"
  halt_time :: real

record env =
  clock :: "nat \<Rightarrow> real"
  db :: "nat \<Rightarrow> string \<Rightarrow> outcome"

text \<open>
  The module's globals (lines 185-194), the cursor's pending result set, the number of
  clock readings and of executed statements so far, and the trace of events.
\<close>

record state =
  time_exit :: bool
  tabcount :: int
  idxcount :: int
  idxcount_success :: int
  idxcount_ignored :: int
  idxcount_retries :: int
  idxcount_notfound :: int
  total_idx_size_before :: int
  total_idx_size_after :: int
  cursor :: "row list option"
  reads :: nat
  execs :: nat
  trace :: "event list"

type_synonym 'a result = "(error + 'a) \<times> state"

text \<open>Sequencing: an exception of the first step skips the rest and keeps the state.\<close>

definition seq :: "(state \<Rightarrow> 'a result) \<Rightarrow> ('a \<Rightarrow> state \<Rightarrow> 'b result) \<Rightarrow> state \<Rightarrow> 'b result" where
  "seq m f s = (case m s of (Inl e, s1) \<Rightarrow> (Inl e, s1) | (Inr x, s1) \<Rightarrow> f x s1)"

definition lift :: "error + 'a \<Rightarrow> state \<Rightarrow> 'a result" where
  "lift r s = (r, s)"

definition time_now :: "env \<Rightarrow> state \<Rightarrow> real \<times> state" where
  "time_now e s = (clock e (reads s), s\<lparr>reads := reads s + 1\<rparr>)"

section \<open>Python's built-in operations on the values\<close>

fun digits :: "nat \<Rightarrow> string" where
  "digits n = (if n < 10 then [''0123456789'' ! n]
               else digits (n div 10) @ [''0123456789'' ! (n mod 10)])"

declare digits.simps [simp del]

definition show_int :: "int \<Rightarrow> string" where
  "show_int i = (if i < 0 then CHR ''-'' # digits (nat (- i)) else digits (nat i))"

text \<open>\<^verbatim>\<open>"%s" % v\<close>\<close>

fun py_str :: "val \<Rightarrow> string" where
  "py_str (VStr s) = s"
| "py_str (VBool b) = (if b then ''True'' else ''False'')"
| "py_str (VInt i) = show_int i"
| "py_str VNull = ''None''"

text \<open>The truth value of \<^verbatim>\<open>if v:\<close>\<close>

fun truthy :: "val \<Rightarrow> bool" where
  "truthy (VStr s) = (s \<noteq> [])"
| "truthy (VBool b) = b"
| "truthy (VInt i) = (i \<noteq> 0)"
| "truthy VNull = False"

text \<open>\<^verbatim>\<open>v in ignorelist\<close>, the list holding strings\<close>

fun py_in :: "val \<Rightarrow> string list \<Rightarrow> bool" where
  "py_in (VStr s) xs = (s \<in> set xs)"
| "py_in v xs = False"

text \<open>\<^verbatim>\<open>v + "_new"\<close>: only a string can be concatenated with a string.\<close>

fun py_concat :: "val \<Rightarrow> string \<Rightarrow> error + string" where
  "py_concat (VStr s) t = Inr (s @ t)"
| "py_concat v t = Inl TypeError"

text \<open>\<^verbatim>\<open>total += v\<close> with an integer total: a bool counts as 0 or 1.\<close>

fun py_add :: "int \<Rightarrow> val \<Rightarrow> error + int" where
  "py_add t (VInt i) = Inr (t + i)"
| "py_add t (VBool b) = Inr (t + (if b then 1 else 0))"
| "py_add t v = Inl TypeError"

text \<open>\<^verbatim>\<open>int(x)\<close> of a float truncates towards zero.\<close>

definition py_int :: "real \<Rightarrow> int" where
  "py_int x = (if 0 \<le> x then \<lfloor>x\<rfloor> else \<lceil>x\<rceil>)"

text \<open>\<^verbatim>\<open>rows[0][j]\<close>\<close>

definition cell :: "row list \<Rightarrow> nat \<Rightarrow> error + val" where
  "cell rows j =
     (case rows of
        [] \<Rightarrow> Inl IndexError
      | r # _ \<Rightarrow> if j < length r then Inr (r ! j) else Inl IndexError)"

section \<open>The statement executor (lines 128-141)\<close>

text \<open>
  \<^verbatim>\<open>cur.fetchall()\<close>: the rows of the last executed statement; psycopg2 raises
  \<^verbatim>\<open>ProgrammingError\<close> when the last statement left no result set, and a second call
  finds the rows consumed.
\<close>

definition fetchall :: "state \<Rightarrow> (row list) result" where
  "fetchall s =
     (case cursor s of
        None \<Rightarrow> (Inl ProgrammingError, s)
      | Some rs \<Rightarrow> (Inr rs, s\<lparr>cursor := Some []\<rparr>))"

definition report :: "string \<Rightarrow> string \<Rightarrow> state \<Rightarrow> state" where
  "report mode msg s = s\<lparr>trace := trace s @ [Reported mode msg]\<rparr>"

definition execute :: "env \<Rightarrow> string \<Rightarrow> state \<Rightarrow> outcome \<times> state" where
  "execute e q s =
     (let r = db e (execs s) q in
      (r, s\<lparr>trace := trace s @ [Executed q], execs := execs s + 1,
             cursor := (case r of Rows rs \<Rightarrow> Some rs | _ \<Rightarrow> None)\<rparr>))"

definition dbquery :: "config \<Rightarrow> env \<Rightarrow> string \<Rightarrow> bool \<Rightarrow> state \<Rightarrow> unit result" where
  "dbquery c e querystring ondryrun s =
     (if \<not> dryrun c \<or> ondryrun then
        (case execute e querystring s of
           (QueryCanceled, s1) \<Rightarrow>
             (Inr (), report ''NOTE   '' ''Query cancelled due to enforced timeout'' s1)
         | (DbError err, s1) \<Rightarrow>
             (Inr (), report ''ERROR  '' (''DB query error: '' @ err) s1)
         | (OtherFailure cls, s1) \<Rightarrow>
             (Inl (Unexpected cls),
              report ''INFO   '' (''Unexpected error executing query: '' @ cls) s1)
         | (_, s1) \<Rightarrow> (Inr (), s1))
      else (Inr (), s\<lparr>trace := trace s @ [Printed querystring]\<rparr>))"

text \<open>
  \<^verbatim>\<open>dbquery\<close> called with a value read from the catalog: both branches first build
  \<^verbatim>\<open>"SQL: " + querystring\<close>, which raises \<^verbatim>\<open>TypeError\<close> unless the value is a string.
\<close>

fun dbquery_val :: "config \<Rightarrow> env \<Rightarrow> val \<Rightarrow> bool \<Rightarrow> state \<Rightarrow> unit result" where
  "dbquery_val c e (VStr q) ondryrun s = dbquery c e q ondryrun s"
| "dbquery_val c e v ondryrun s = (Inl TypeError, s)"

text \<open>The statements that went through \<^verbatim>\<open>dbquery\<close>, sent or printed, in order.\<close>

fun issued :: "event list \<Rightarrow> string list" where
  "issued [] = []"
| "issued (Executed q # es) = q # issued es"
| "issued (Printed q # es) = q # issued es"
| "issued (ev # es) = issued es"

text \<open>The statements that dry-run mode printed instead.\<close>

fun printed :: "event list \<Rightarrow> string list" where
  "printed [] = []"
| "printed (Printed q # es) = q # printed es"
| "printed (ev # es) = printed es"

text \<open>The statements that reached the server.\<close>

fun sent :: "event list \<Rightarrow> string list" where
  "sent [] = []"
| "sent (Executed q # es) = q # sent es"
| "sent (ev # es) = sent es"

section \<open>The statement texts\<close>

definition quoted :: "string \<Rightarrow> string" where
  "quoted s = CHR 0x27 # s @ [CHR 0x27]"

text \<open>Lines 229-235.\<close>

definition idx_info_query :: "string \<Rightarrow> string" where
  "idx_info_query n =
     ''\<newline>        SELECT i.tablename, ix.indisprimary'' @
     ''\<newline>        FROM pg_class c'' @
     ''\<newline>        INNER JOIN pg_indexes i ON c.relname = i.indexname'' @
     ''\<newline>        INNER JOIN pg_index ix ON c.oid = ix.indexrelid'' @
     ''\<newline>        WHERE c.relname = '' @ quoted n @
     ''\<newline>    ''"

text \<open>Lines 251-256; the Python literal \<^verbatim>\<open>\\1\<close> is one backslash and a digit.\<close>

definition idx_create_new_query :: "string \<Rightarrow> string" where
  "idx_create_new_query n =
     ''\<newline>        SELECT '' @
     ''\<newline>          indexdef, '' @
     ''\<newline>          regexp_replace(indexdef, '' @ quoted ''(.*)INDEX (.*) ON(.*)'' @ '', '' @
       quoted (CHR 0x5C # ''1INDEX CONCURRENTLY '' @ CHR 0x5C # ''2_new ON'' @ CHR 0x5C # ''3'') @
       '' AS indexdef_new'' @
     ''\<newline>        FROM pg_indexes WHERE indexname = '' @ quoted n @
     ''\<newline>    ''"

text \<open>Lines 275-279.\<close>

definition idx_valid_query :: "string \<Rightarrow> string" where
  "idx_valid_query n =
     ''\<newline>            SELECT relname, indisvalid'' @
     ''\<newline>            FROM pg_class INNER JOIN pg_index ON pg_index.indexrelid = pg_class.oid'' @
     ''\<newline>            WHERE relname='' @ quoted n @
     ''\<newline>        ''"

text \<open>Lines 288 and 293.\<close>

definition idx_size_query :: "string \<Rightarrow> string" where
  "idx_size_query n = ''SELECT pg_relation_size('' @ quoted n @ '')''"

text \<open>Line 349.\<close>

definition idx_names_query :: "string \<Rightarrow> string" where
  "idx_names_query t =
     ''SELECT indexname FROM pg_indexes WHERE tablename = '' @ quoted t @ '' ORDER BY indexname''"

text \<open>Line 226.\<close>

definition set_timeout_stmt :: "int \<Rightarrow> string" where
  "set_timeout_stmt timeout_secs = ''SET statement_timeout = '' @ quoted (show_int timeout_secs @ ''s'')"

definition drop_stale_stmt :: "string \<Rightarrow> string" where
  "drop_stale_stmt new = ''DROP INDEX CONCURRENTLY IF EXISTS '' @ new"

definition drop_stmt :: "string \<Rightarrow> string" where
  "drop_stmt n = ''DROP INDEX CONCURRENTLY '' @ n"

definition analyse_stmt :: "string \<Rightarrow> string" where
  "analyse_stmt t = ''ANALYSE '' @ t"

definition drop_constraint_stmt :: "string \<Rightarrow> string \<Rightarrow> string" where
  "drop_constraint_stmt t n = ''ALTER TABLE '' @ t @ '' DROP CONSTRAINT '' @ n"

definition rename_stmt :: "string \<Rightarrow> string \<Rightarrow> string" where
  "rename_stmt new n = ''ALTER INDEX '' @ new @ '' RENAME TO '' @ n"

definition add_pk_stmt :: "string \<Rightarrow> string \<Rightarrow> string" where
  "add_pk_stmt t n = ''ALTER TABLE '' @ t @ '' ADD PRIMARY KEY USING INDEX '' @ n"

section \<open>Processing one index (lines 198-334)\<close>

text \<open>The local variables of \<^verbatim>\<open>process_index\<close> that the retry loop reads.\<close>

record locals =
  idx_name :: string
  idx_name_new :: string
  table :: string
  is_pk :: bool
  idx_create_new :: val

text \<open>Lines 223-226: the statement timeout, only under \<^verbatim>\<open>--enforce-time\<close>.\<close>

definition set_timeout :: "config \<Rightarrow> env \<Rightarrow> state \<Rightarrow> unit result" where
  "set_timeout c e s0 =
     (if enforcetime c then
        (let (now, s) = time_now e s0;
             timeout_secs = py_int (halt_time c - now) + 30
         in dbquery c e (set_timeout_stmt timeout_secs) False s)
      else (Inr (), s0))"

text \<open>Lines 316-318 and 329-331.\<close>

definition pause :: "config \<Rightarrow> state \<Rightarrow> unit result" where
  "pause c s =
     (if pause_time c > 0 then (Inr (), s\<lparr>trace := trace s @ [Slept (pause_time c)]\<rparr>)
      else (Inr (), s))"

text \<open>Lines 300-314: the two swap protocols and the closing \<^verbatim>\<open>ANALYSE\<close>.\<close>

definition swap :: "config \<Rightarrow> env \<Rightarrow> locals \<Rightarrow> state \<Rightarrow> unit result" where
  "swap c e t =
     seq (if is_pk t then
            seq (dbquery c e (analyse_stmt (table t)) False) (\<lambda>_.
            seq (dbquery c e ''BEGIN'' False) (\<lambda>_.
            seq (dbquery c e (drop_constraint_stmt (table t) (idx_name t)) False) (\<lambda>_.
            seq (dbquery c e (rename_stmt (idx_name_new t) (idx_name t)) False) (\<lambda>_.
            seq (dbquery c e (add_pk_stmt (table t) (idx_name t)) False) (\<lambda>_.
            dbquery c e ''COMMIT'' False)))))
          else
            seq (dbquery c e (analyse_stmt (table t)) False) (\<lambda>_.
            seq (dbquery c e (drop_stmt (idx_name t)) False) (\<lambda>_.
            dbquery c e (rename_stmt (idx_name_new t) (idx_name t)) False)))
         (\<lambda>_. dbquery c e (analyse_stmt (table t)) False)"

text \<open>Lines 291 and 296: \<^verbatim>\<open>total_idx_size_before += ...\<close>, \<^verbatim>\<open>total_idx_size_after += ...\<close>\<close>

definition add_size_before :: "val \<Rightarrow> state \<Rightarrow> unit result" where
  "add_size_before v s =
     (case py_add (total_idx_size_before s) v of
        Inl er \<Rightarrow> (Inl er, s)
      | Inr n \<Rightarrow> (Inr (), s\<lparr>total_idx_size_before := n\<rparr>))"

definition add_size_after :: "val \<Rightarrow> state \<Rightarrow> unit result" where
  "add_size_after v s =
     (case py_add (total_idx_size_after s) v of
        Inl er \<Rightarrow> (Inl er, s)
      | Inr n \<Rightarrow> (Inr (), s\<lparr>total_idx_size_after := n\<rparr>))"

text \<open>Lines 288-290: the size of the original index.\<close>

definition read_size_before :: "config \<Rightarrow> env \<Rightarrow> locals \<Rightarrow> state \<Rightarrow> val result" where
  "read_size_before c e t =
     seq (dbquery c e (idx_size_query (idx_name t)) True) (\<lambda>_.
     seq fetchall (\<lambda>rows. lift (cell rows 0)))"

text \<open>
  Lines 285-320, the branch of a valid replacement: the two sizes, the swap, the pause
  and the success counter. In dry-run mode the size-after query is printed and the size
  before stands for the size after. \<^verbatim>\<open>index_bloat_stats\<close> only formats its two
  numbers for a progress line.
\<close>

definition on_valid :: "config \<Rightarrow> env \<Rightarrow> locals \<Rightarrow> state \<Rightarrow> unit result" where
  "on_valid c e t =
     seq (read_size_before c e t) (\<lambda>idx_size_before.
     seq (add_size_before idx_size_before) (\<lambda>_.
     seq (dbquery c e (idx_size_query (idx_name_new t)) False) (\<lambda>_.
     seq (if \<not> dryrun c then seq fetchall (\<lambda>rows. lift (cell rows 0))
          else lift (Inr idx_size_before)) (\<lambda>idx_size_after.
     seq (add_size_after idx_size_after) (\<lambda>_.
     seq (swap c e t) (\<lambda>_.
     seq (pause c) (\<lambda>_ s.
     (Inr (), s\<lparr>idxcount_success := idxcount_success s + 1\<rparr>))))))))"

text \<open>Lines 323-333, the branch of an invalid replacement.\<close>

definition on_invalid :: "config \<Rightarrow> env \<Rightarrow> locals \<Rightarrow> state \<Rightarrow> unit result" where
  "on_invalid c e t =
     seq (dbquery c e (drop_stmt (idx_name_new t)) False) (\<lambda>_.
     seq (pause c) (\<lambda>_ s.
     (Inr (), s\<lparr>idxcount_retries := idxcount_retries s + 1\<rparr>)))"

text \<open>
  Lines 275-282, the validity check: the result is the truth value of
  \<^verbatim>\<open>args.dryrun or cur.fetchall()[0][1]\<close>; \<^verbatim>\<open>or\<close> does not evaluate its right
  side in dry-run mode.
\<close>

definition check_valid :: "config \<Rightarrow> env \<Rightarrow> locals \<Rightarrow> state \<Rightarrow> bool result" where
  "check_valid c e t =
     seq (dbquery c e (idx_valid_query (idx_name_new t)) True) (\<lambda>_.
     if dryrun c then lift (Inr True)
     else seq fetchall (\<lambda>rows.
          seq (lift (cell rows 1)) (\<lambda>v. lift (Inr (truthy v)))))"

text \<open>Lines 270-282: the defensive drop, the build and the validity check.\<close>

definition build_and_check :: "config \<Rightarrow> env \<Rightarrow> locals \<Rightarrow> state \<Rightarrow> bool result" where
  "build_and_check c e t =
     seq (dbquery c e (drop_stale_stmt (idx_name_new t)) False) (\<lambda>_.
     seq (dbquery_val c e (idx_create_new t) False) (\<lambda>_.
     check_valid c e t))"

text \<open>
  Lines 261-334: \<^verbatim>\<open>for attempt in range(1, args.retries + 1)\<close>, over the list of attempt
  numbers. The deadline is read at the top of each round; \<^verbatim>\<open>break\<close> ends the loop
  after the deadline and after a swap, \<^verbatim>\<open>continue\<close> goes to the next number.
\<close>

fun retry_loop :: "config \<Rightarrow> env \<Rightarrow> locals \<Rightarrow> int list \<Rightarrow> state \<Rightarrow> unit result" where
  "retry_loop c e t [] s = (Inr (), s)"
| "retry_loop c e t (attempt # rest) s0 =
     (let (now, s) = time_now e s0 in
      if now \<ge> halt_time c then (Inr (), s\<lparr>time_exit := True\<rparr>)
      else
        (case build_and_check c e t s of
           (Inl er, s1) \<Rightarrow> (Inl er, s1)
         | (Inr idx_valid, s1) \<Rightarrow>
             if idx_valid then on_valid c e t s1
             else
               (case on_invalid c e t s1 of
                  (Inl er, s2) \<Rightarrow> (Inl er, s2)
                | (Inr _, s2) \<Rightarrow> retry_loop c e t rest s2)))"

text \<open>Lines 251-259: the definition of the index and its rewritten copy.\<close>

definition fetch_definition :: "config \<Rightarrow> env \<Rightarrow> val \<Rightarrow> state \<Rightarrow> val result" where
  "fetch_definition c e name =
     seq (dbquery c e (idx_create_new_query (py_str name)) True) (\<lambda>_.
     seq fetchall (\<lambda>rows. lift (cell rows 1)))"

text \<open>
  Lines 198-334. The name is a string from the command line or the first cell of a row
  of the table's listing.
\<close>

definition process_index :: "config \<Rightarrow> env \<Rightarrow> val \<Rightarrow> state \<Rightarrow> unit result" where
  "process_index c e name s0 =
     (let (now, s) = time_now e s0 in
      if now \<ge> halt_time c then (Inr (), s\<lparr>time_exit := True\<rparr>)
      else
        (let s1 = s\<lparr>idxcount := idxcount s + 1\<rparr> in
         if py_in name (ignorelist c) then
           (Inr (), s1\<lparr>idxcount_ignored := idxcount_ignored s1 + 1\<rparr>)
         else
           seq (set_timeout c e) (\<lambda>_.
           seq (dbquery c e (idx_info_query (py_str name)) True) (\<lambda>_.
           seq fetchall (\<lambda>idx_info.
           if length idx_info \<noteq> 1 then
             (\<lambda>s2. (Inr (), s2\<lparr>idxcount_notfound := idxcount_notfound s2 + 1\<rparr>))
           else
             seq (lift (cell idx_info 0)) (\<lambda>tab.
             seq (lift (cell idx_info 1)) (\<lambda>pk.
             seq (lift (py_concat name ''_new'')) (\<lambda>new.
             seq (fetch_definition c e name) (\<lambda>def_new.
             retry_loop c e
               \<lparr>idx_name = py_str name, idx_name_new = new, table = py_str tab,
                is_pk = truthy pk, idx_create_new = def_new\<rparr>
               [1..retries c]))))))) s1))"

section \<open>Processing one table (lines 337-357) and the driver (lines 374-380)\<close>

text \<open>\<^verbatim>\<open>for idx in idx_names: process_index(idx[0])\<close>\<close>

fun each_index :: "config \<Rightarrow> env \<Rightarrow> row list \<Rightarrow> state \<Rightarrow> unit result" where
  "each_index c e [] s = (Inr (), s)"
| "each_index c e (idx # rest) s =
     (case idx of
        [] \<Rightarrow> (Inl IndexError, s)
      | name # _ \<Rightarrow>
          (case process_index c e name s of
             (Inl er, s1) \<Rightarrow> (Inl er, s1)
           | (Inr _, s1) \<Rightarrow> each_index c e rest s1))"

definition process_table :: "config \<Rightarrow> env \<Rightarrow> string \<Rightarrow> state \<Rightarrow> unit result" where
  "process_table c e tab s0 =
     (let (now, s) = time_now e s0 in
      if now \<ge> halt_time c then (Inr (), s\<lparr>time_exit := True\<rparr>)
      else
        (let s1 = s\<lparr>tabcount := tabcount s + 1\<rparr> in
         seq (dbquery c e (idx_names_query tab) True) (\<lambda>_.
         seq fetchall (\<lambda>idx_names.
         each_index c e idx_names)) s1))"

fun each_listed_index :: "config \<Rightarrow> env \<Rightarrow> string list \<Rightarrow> state \<Rightarrow> unit result" where
  "each_listed_index c e [] s = (Inr (), s)"
| "each_listed_index c e (idx # rest) s =
     (case process_index c e (VStr idx) s of
        (Inl er, s1) \<Rightarrow> (Inl er, s1)
      | (Inr _, s1) \<Rightarrow> each_listed_index c e rest s1)"

fun each_table :: "config \<Rightarrow> env \<Rightarrow> string list \<Rightarrow> state \<Rightarrow> unit result" where
  "each_table c e [] s = (Inr (), s)"
| "each_table c e (tab # rest) s =
     (case process_table c e tab s of
        (Inl er, s1) \<Rightarrow> (Inl er, s1)
      | (Inr _, s1) \<Rightarrow> each_table c e rest s1)"

definition run :: "config \<Rightarrow> env \<Rightarrow> string list \<Rightarrow> string list \<Rightarrow> state \<Rightarrow> unit result" where
  "run c e indexlist tablelist =
     seq (each_listed_index c e indexlist) (\<lambda>_. each_table c e tablelist)"

text \<open>The globals as lines 185-194 set them, with a fresh cursor and an empty trace.\<close>

definition initial :: state where
  "initial =
     \<lparr>time_exit = False, tabcount = 0, idxcount = 0, idxcount_success = 0,
      idxcount_ignored = 0, idxcount_retries = 0, idxcount_notfound = 0,
      total_idx_size_before = 0, total_idx_size_after = 0,
      cursor = None, reads = 0, execs = 0, trace = []\<rparr>"

section \<open>Projections used to state the theorems\<close>

text \<open>The counters and the flag among the globals, with the position of the clock.\<close>

definition counters :: "state \<Rightarrow> bool \<times> int \<times> int \<times> int \<times> int \<times> int \<times> int \<times> nat" where
  "counters s =
     (time_exit s, tabcount s, idxcount s, idxcount_success s, idxcount_ignored s,
      idxcount_retries s, idxcount_notfound s, reads s)"

text \<open>The two running totals of the bloat accounting.\<close>

definition totals :: "state \<Rightarrow> int \<times> int" where
  "totals s = (total_idx_size_before s, total_idx_size_after s)"

text \<open>The statements of lines 300-314 in the order of the source.\<close>

definition swap_stmts :: "locals \<Rightarrow> string list" where
  "swap_stmts t =
     (if is_pk t then
        [analyse_stmt (table t), ''BEGIN'', drop_constraint_stmt (table t) (idx_name t),
         rename_stmt (idx_name_new t) (idx_name t), add_pk_stmt (table t) (idx_name t),
         ''COMMIT'']
      else
        [analyse_stmt (table t), drop_stmt (idx_name t),
         rename_stmt (idx_name_new t) (idx_name t)])
     @ [analyse_stmt (table t)]"

text \<open>The values that \<^verbatim>\<open>total += v\<close> accepts: an integer or a bool.\<close>

fun py_number :: "val \<Rightarrow> bool" where
  "py_number (VInt i) = True"
| "py_number (VBool b) = True"
| "py_number v = False"

text \<open>
  What a statement of the run does to the index of the replacement's name, once the
  server has carried it out: the two drops of that name and the rename to the original
  name remove it, the build statement creates it, any other statement leaves it.
\<close>

definition effect :: "locals \<Rightarrow> bool \<Rightarrow> string \<Rightarrow> bool" where
  "effect t p q =
     (if q = drop_stmt (idx_name_new t) \<or> q = drop_stale_stmt (idx_name_new t)
         \<or> q = rename_stmt (idx_name_new t) (idx_name t) then False
      else if VStr q = idx_create_new t then True
      else p)"

text \<open>
  Whether an index exists under the replacement's name after the events of a run, when it
  did (\<open>p\<close>) or did not exist before. Only a statement that the server carried out
  counts: a statement that was sent and failed is followed in the trace by the report
  line of \<^verbatim>\<open>dbquery\<close> and changes nothing, and neither does a statement that dry-run
  mode printed. This reads "a stale replacement is left behind" on the trace.
\<close>

fun replacement_present :: "locals \<Rightarrow> bool \<Rightarrow> event list \<Rightarrow> bool" where
  "replacement_present t p [] = p"
| "replacement_present t p (Executed q # Reported mode msg # es) = replacement_present t p es"
| "replacement_present t p (Executed q # es) = replacement_present t (effect t p q) es"
| "replacement_present t p (ev # es) = replacement_present t p es"

section \<open>Example configurations\<close>

text \<open>Concrete inputs at which the theorems below are evaluated.\<close>

definition example_config :: config where
  "example_config =
     \<lparr>dryrun = False, enforcetime = False, retries = 2, pause_time = 0,
      ignorelist = [''idx_users_email''], halt_time = 7200\<rparr>"

definition example_locals :: locals where
  "example_locals =
     \<lparr>idx_name = ''idx_a'', idx_name_new = ''idx_a_new'', table = ''tab'', is_pk = False,
      idx_create_new = VStr ''CREATE INDEX CONCURRENTLY idx_a_new ON tab (a)''\<rparr>"

definition faulty_env :: env where
  "faulty_env =
     \<lparr>clock = (\<lambda>n. 0),
      db = (\<lambda>n q. if n = 0 then QueryCanceled
                  else if n = 1 then DbError ''deadlock detected''
                  else OtherFailure ''KeyboardInterrupt'')\<rparr>"

definition valid_env :: env where
  "valid_env =
     \<lparr>clock = (\<lambda>n. 0),
      db = (\<lambda>n q. if n = 2 then Rows [[VStr ''idx_a_new'', VBool True]]
                  else if n = 3 then Rows [[VInt 8192]]
                  else if n = 4 then Rows [[VInt 4096]]
                  else Done)\<rparr>"

definition late_env :: env where
  "late_env = \<lparr>clock = (\<lambda>n. 7200), db = (\<lambda>n q. Done)\<rparr>"

definition empty_env :: env where
  "empty_env = \<lparr>clock = (\<lambda>n. 0), db = (\<lambda>n q. Rows [])\<rparr>"

definition invalid_env :: env where
  "invalid_env =
     \<lparr>clock = (\<lambda>n. 0), db = (\<lambda>n q. Rows [[VStr ''idx_a_new'', VBool False]])\<rparr>"

definition broken_env :: env where
  "broken_env =
     \<lparr>clock = (\<lambda>n. 0),
      db = (\<lambda>n q. if n = 0 then Rows [[VStr ''tab'', VBool False]]
                  else if n = 1 then
                    Rows [[VStr ''CREATE INDEX idx_a ON tab (a)'',
                           VStr ''CREATE INDEX CONCURRENTLY idx_a_new ON tab (a)'']]
                  else if n = 2 then Done
                  else if n = 3 then DbError ''could not create unique index''
                  else Rows [])\<rparr>"

definition dry_env :: env where
  "dry_env =
     \<lparr>clock = (\<lambda>n. 0),
      db = (\<lambda>n q. if n = 0 then Rows [[VStr ''tab'', VBool True]]
                  else if n = 1 then
                    Rows [[VStr ''CREATE UNIQUE INDEX idx_a ON tab (a)'',
                           VStr ''CREATE UNIQUE INDEX CONCURRENTLY idx_a_new ON tab (a)'']]
                  else if n = 2 then Rows []
                  else if n = 3 then Rows [[VInt 8192]]
                  else Done)\<rparr>"

text \<open>
  Answers for a run of the retry loop from \<open>initial\<close> outside dry-run mode: statement 0
  is the defensive drop, 1 the build, 2 the validity check, 3 and 4 the size lookups, 5
  and later the swap.
\<close>

definition sizeless_env :: env where
  "sizeless_env =
     \<lparr>clock = (\<lambda>n. 0),
      db = (\<lambda>n q. if n = 2 then Rows [[VStr ''idx_a_new'', VBool True]]
                  else if n = 3 then DbError ''canceling statement due to lock timeout''
                  else Done)\<rparr>"

definition aborting_env :: env where
  "aborting_env =
     \<lparr>clock = (\<lambda>n. 0),
      db = (\<lambda>n q. if n = 2 then Rows [[VStr ''idx_a_new'', VBool True]]
                  else if n = 3 then Rows [[VInt 8192]]
                  else if n = 4 then Rows [[VInt 4096]]
                  else if n = 6 then OtherFailure ''SystemExit''
                  else Done)\<rparr>"


definition exhausting_env :: env where
  "exhausting_env =
     \<lparr>clock = (\<lambda>n. 0),
      db = (\<lambda>n q. if n = 0 then Rows [[VStr ''tab'', VBool False]]
                  else if n = 1 then
                    Rows [[VStr ''CREATE INDEX idx_a ON tab (a)'',
                           VStr ''CREATE INDEX CONCURRENTLY idx_a_new ON tab (a)'']]
                  else if n = 4 \<or> n = 8 then Rows [[VStr ''idx_a_new'', VBool False]]
                  else Done)\<rparr>"

section \<open>Effects of the pieces\<close>

lemma issued_append [simp]: "issued (xs @ ys) = issued xs @ issued ys"
  by (induction xs rule: issued.induct) simp_all

lemma sent_append [simp]: "sent (xs @ ys) = sent xs @ sent ys"
  by (induction xs rule: sent.induct) simp_all

lemma printed_append [simp]: "printed (xs @ ys) = printed xs @ printed ys"
  by (induction xs rule: printed.induct) simp_all

lemma seq_Inr: "seq m f s = (Inr y, s') \<longleftrightarrow> (\<exists>x s1. m s = (Inr x, s1) \<and> f x s1 = (Inr y, s'))"
  by (simp add: seq_def split: prod.splits sum.splits)

lemma lift_Inr: "lift r s = (Inr y, s') \<longleftrightarrow> r = Inr y \<and> s' = s"
  by (auto simp: lift_def)

lemma dbquery_effect:
  "issued (trace (snd (dbquery c e q od s))) = issued (trace s) @ [q]"
  "sent (trace (snd (dbquery c e q od s))) = sent (trace s) @ (if \<not> dryrun c \<or> od then [q] else [])"
  "printed (trace (snd (dbquery c e q od s))) = printed (trace s) @ (if \<not> dryrun c \<or> od then [] else [q])"
  "counters (snd (dbquery c e q od s)) = counters s"
  "totals (snd (dbquery c e q od s)) = totals s"
  by (simp_all add: dbquery_def execute_def report_def Let_def counters_def totals_def split: outcome.splits)

lemma dbqueryD:
  "dbquery c e q od s = (r, s1) \<Longrightarrow>
     issued (trace s1) = issued (trace s) @ [q] \<and>
     sent (trace s1) = sent (trace s) @ (if \<not> dryrun c \<or> od then [q] else []) \<and>
     printed (trace s1) = printed (trace s) @ (if \<not> dryrun c \<or> od then [] else [q]) \<and>
     counters s1 = counters s \<and> totals s1 = totals s"
  using dbquery_effect[of c e q od s] by simp

lemma dbquery_valD:
  "dbquery_val c e v od s = (Inr u, s1) \<Longrightarrow> dbquery c e (py_str v) od s = (Inr u, s1)"
  by (cases v) simp_all

lemma fetchallD:
  "fetchall s = (Inr rows, s1) \<Longrightarrow>
     cursor s = Some rows \<and> trace s1 = trace s \<and> execs s1 = execs s \<and>
     counters s1 = counters s \<and> totals s1 = totals s"
  by (cases "cursor s") (simp_all add: fetchall_def counters_def totals_def, auto)

lemma pauseD:
  "pause c s = (r, s1) \<Longrightarrow>
     r = Inr () \<and> issued (trace s1) = issued (trace s) \<and> sent (trace s1) = sent (trace s) \<and>
     printed (trace s1) = printed (trace s) \<and>
     execs s1 = execs s \<and> counters s1 = counters s \<and> totals s1 = totals s"
  by (cases "pause_time c > 0") (simp_all add: pause_def counters_def totals_def, auto)

lemma swapD:
  "swap c e t s = (Inr u, s1) \<Longrightarrow>
     issued (trace s1) = issued (trace s) @ swap_stmts t \<and>
     sent (trace s1) = sent (trace s) @ (if dryrun c then [] else swap_stmts t) \<and>
     printed (trace s1) = printed (trace s) @ (if dryrun c then swap_stmts t else []) \<and>
     counters s1 = counters s \<and> totals s1 = totals s"
  by (cases "is_pk t"; cases "dryrun c") (auto simp: swap_def swap_stmts_def seq_Inr dest!: dbqueryD)

lemma add_size_beforeD:
  "add_size_before v s = (Inr u, s1) \<Longrightarrow>
     py_add (total_idx_size_before s) v = Inr (total_idx_size_before s1) \<and>
     total_idx_size_after s1 = total_idx_size_after s \<and>
     trace s1 = trace s \<and> cursor s1 = cursor s \<and> execs s1 = execs s \<and> counters s1 = counters s"
  by (cases "py_add (total_idx_size_before s) v") (simp_all add: add_size_before_def counters_def, auto)

lemma add_size_afterD:
  "add_size_after v s = (Inr u, s1) \<Longrightarrow>
     py_add (total_idx_size_after s) v = Inr (total_idx_size_after s1) \<and>
     total_idx_size_before s1 = total_idx_size_before s \<and>
     trace s1 = trace s \<and> cursor s1 = cursor s \<and> execs s1 = execs s \<and> counters s1 = counters s"
  by (cases "py_add (total_idx_size_after s) v") (simp_all add: add_size_after_def counters_def, auto)

lemma py_add_same:
  "py_add t v = Inr n \<Longrightarrow> py_add t' v = Inr n' \<Longrightarrow> n - t = n' - t'"
  by (cases v) auto

lemma read_size_beforeD:
  "read_size_before c e t s = (Inr v, s1) \<Longrightarrow>
     issued (trace s1) = issued (trace s) @ [idx_size_query (idx_name t)] \<and>
     sent (trace s1) = sent (trace s) @ [idx_size_query (idx_name t)] \<and>
     printed (trace s1) = printed (trace s) \<and>
     counters s1 = counters s \<and> totals s1 = totals s"
  by (auto simp: read_size_before_def seq_Inr lift_Inr dest!: dbqueryD fetchallD)

lemma on_validD:
  assumes a: "on_valid c e t s = (Inr u, s1)"
  shows "issued (trace s1) =
       issued (trace s) @ [idx_size_query (idx_name t), idx_size_query (idx_name_new t)] @ swap_stmts t \<and>
     sent (trace s1) =
       sent (trace s) @
       (if dryrun c then [idx_size_query (idx_name t)]
        else [idx_size_query (idx_name t), idx_size_query (idx_name_new t)] @ swap_stmts t) \<and>
     printed (trace s1) =
       printed (trace s) @ (if dryrun c then idx_size_query (idx_name_new t) # swap_stmts t else []) \<and>
     counters s1 = counters (s\<lparr>idxcount_success := idxcount_success s + 1\<rparr>) \<and>
     (dryrun c \<longrightarrow> total_idx_size_after s1 - total_idx_size_after s =
                    total_idx_size_before s1 - total_idx_size_before s)"
proof -
  from a obtain v sb sc sd w se sf sg sh where
    1: "read_size_before c e t s = (Inr v, sb)" and
    4: "add_size_before v sb = (Inr (), sc)" and
    5: "dbquery c e (idx_size_query (idx_name_new t)) False sc = (Inr (), sd)" and
    6: "(if \<not> dryrun c then seq fetchall (\<lambda>rows. lift (cell rows 0)) else lift (Inr v)) sd = (Inr w, se)" and
    7: "add_size_after w se = (Inr (), sf)" and
    8: "swap c e t sf = (Inr (), sg)" and
    9: "pause c sg = (Inr (), sh)" and
    10: "s1 = sh\<lparr>idxcount_success := idxcount_success sh + 1\<rparr>"
    by (auto simp: on_valid_def seq_Inr lift_Inr)
  have six: "trace se = trace sd \<and> counters se = counters sd \<and> totals se = totals sd \<and> (dryrun c \<longrightarrow> w = v)"
    using 6 by (cases "dryrun c") (auto simp: seq_Inr lift_Inr dest!: fetchallD)
  note f = read_size_beforeD[OF 1] add_size_beforeD[OF 4] dbqueryD[OF 5] six
    add_size_afterD[OF 7] swapD[OF 8] pauseD[OF 9]
  have i: "issued (trace s1) =
       issued (trace s) @ [idx_size_query (idx_name t), idx_size_query (idx_name_new t)] @ swap_stmts t"
    using f 10 by simp
  have se: "sent (trace s1) =
       sent (trace s) @
       (if dryrun c then [idx_size_query (idx_name t)]
        else [idx_size_query (idx_name t), idx_size_query (idx_name_new t)] @ swap_stmts t)"
    using f 10 by simp
  have pr: "printed (trace s1) =
       printed (trace s) @ (if dryrun c then idx_size_query (idx_name_new t) # swap_stmts t else [])"
    using f 10 by simp
  have cn: "counters s1 = counters (s\<lparr>idxcount_success := idxcount_success s + 1\<rparr>)"
    using f 10 by (simp add: counters_def)
  have tot: "dryrun c \<longrightarrow> total_idx_size_after s1 - total_idx_size_after s =
                    total_idx_size_before s1 - total_idx_size_before s"
  proof
    assume d: "dryrun c"
    have "total_idx_size_after sf - total_idx_size_after se = total_idx_size_before sc - total_idx_size_before sb"
      using f d py_add_same[of "total_idx_size_after se" v "total_idx_size_after sf" "total_idx_size_before sb" "total_idx_size_before sc"]
      by simp
    then show "total_idx_size_after s1 - total_idx_size_after s =
                    total_idx_size_before s1 - total_idx_size_before s"
      using f 10 by (simp add: totals_def)
  qed
  show ?thesis using i se pr cn tot by blast
qed

lemma on_invalidD:
  "on_invalid c e t s = (Inr u, s1) \<Longrightarrow>
     issued (trace s1) = issued (trace s) @ [drop_stmt (idx_name_new t)] \<and>
     sent (trace s1) = sent (trace s) @ (if dryrun c then [] else [drop_stmt (idx_name_new t)]) \<and>
     counters s1 = counters (s\<lparr>idxcount_retries := idxcount_retries s + 1\<rparr>) \<and>
     totals s1 = totals s"
  by (cases "dryrun c")
     (auto simp: on_invalid_def seq_Inr counters_def totals_def dest!: dbqueryD pauseD)

lemma check_validD:
  "check_valid c e t s = (Inr v, s1) \<Longrightarrow>
     issued (trace s1) = issued (trace s) @ [idx_valid_query (idx_name_new t)] \<and>
     sent (trace s1) = sent (trace s) @ [idx_valid_query (idx_name_new t)] \<and>
     printed (trace s1) = printed (trace s) \<and>
     counters s1 = counters s \<and> totals s1 = totals s \<and> (dryrun c \<longrightarrow> v)"
  by (cases "dryrun c")
     (auto simp: check_valid_def seq_Inr lift_Inr dest!: dbqueryD fetchallD)

lemma build_and_checkD:
  "build_and_check c e t s = (Inr v, s1) \<Longrightarrow>
     issued (trace s1) =
       issued (trace s) @
       [drop_stale_stmt (idx_name_new t), py_str (idx_create_new t), idx_valid_query (idx_name_new t)] \<and>
     sent (trace s1) =
       sent (trace s) @
       (if dryrun c then [idx_valid_query (idx_name_new t)]
        else [drop_stale_stmt (idx_name_new t), py_str (idx_create_new t),
              idx_valid_query (idx_name_new t)]) \<and>
     printed (trace s1) =
       printed (trace s) @
       (if dryrun c then [drop_stale_stmt (idx_name_new t), py_str (idx_create_new t)] else []) \<and>
     counters s1 = counters s \<and> totals s1 = totals s \<and> (dryrun c \<longrightarrow> v)"
  by (cases "dryrun c")
     (auto simp: build_and_check_def seq_Inr dest!: dbqueryD dbquery_valD check_validD)

lemma retry_loop_valid:
  "clock e (reads s) < halt_time c \<Longrightarrow>
   build_and_check c e t (s\<lparr>reads := reads s + 1\<rparr>) = (Inr True, s1) \<Longrightarrow>
   retry_loop c e t (k # rest) s = on_valid c e t s1"
  by (simp add: time_now_def)

lemmas run_defs =
  time_now_def build_and_check_def check_valid_def on_valid_def on_invalid_def
  read_size_before_def add_size_before_def add_size_after_def swap_def pause_def
  seq_def lift_def dbquery_def execute_def report_def fetchall_def cell_def Let_def

lemma dbquery_clock: "dbquery c (e\<lparr>clock := f\<rparr>) = dbquery c e"
  by (intro ext) (simp add: dbquery_def execute_def)

lemma round_clock:
  "build_and_check c (e\<lparr>clock := f\<rparr>) t = build_and_check c e t"
  "on_valid c (e\<lparr>clock := f\<rparr>) t = on_valid c e t"
  "on_invalid c (e\<lparr>clock := f\<rparr>) t = on_invalid c e t"
proof -
  have v: "dbquery_val c (e\<lparr>clock := f\<rparr>) v od = dbquery_val c e v od" for v od
    by (cases v) (simp_all add: fun_eq_iff dbquery_clock)
  show "build_and_check c (e\<lparr>clock := f\<rparr>) t = build_and_check c e t"
    by (simp add: build_and_check_def check_valid_def dbquery_clock v)
  show "on_valid c (e\<lparr>clock := f\<rparr>) t = on_valid c e t"
    by (simp add: on_valid_def read_size_before_def swap_def dbquery_clock)
  show "on_invalid c (e\<lparr>clock := f\<rparr>) t = on_invalid c e t"
    by (simp add: on_invalid_def dbquery_clock)
qed



















lemma dbquery_ok:
  "\<forall>cls. db e (execs s) q \<noteq> OtherFailure cls \<Longrightarrow> fst (dbquery c e q od s) = Inr ()"
  by (simp add: dbquery_def execute_def Let_def split: outcome.splits)

lemma dbquery_okE:
  assumes "\<forall>n q cls. db e n q \<noteq> OtherFailure cls"
  obtains s1 where "dbquery c e q od s = (Inr (), s1)"
  using dbquery_ok[of e s q c od] assms by (cases "dbquery c e q od s") auto

lemma dbquery_rows:
  "\<not> dryrun c \<or> od \<Longrightarrow> db e (execs s) q = Rows rs \<Longrightarrow>
   fst (dbquery c e q od s) = Inr () \<and> cursor (snd (dbquery c e q od s)) = Some rs"
  by (auto simp: dbquery_def execute_def Let_def)

lemma dbquery_execs:
  "\<not> dryrun c \<or> od \<Longrightarrow> execs (snd (dbquery c e q od s)) = execs s + 1"
  by (auto simp: dbquery_def execute_def report_def Let_def split: outcome.splits)

lemma check_valid_row:
  assumes "\<not> dryrun c"
    and "db e (execs s) (idx_valid_query (idx_name_new t)) = Rows (r # rs)"
    and "1 < length r"
  shows "fst (check_valid c e t s) = Inr (truthy (r ! 1))"
  using assms
  by (simp add: check_valid_def seq_def dbquery_def execute_def fetchall_def lift_def cell_def Let_def)

lemma build_and_check_invalid:
  assumes nd: "\<not> dryrun c"
    and str: "idx_create_new t = VStr b"
    and inv: "\<forall>n. \<exists>r rs. db e n (idx_valid_query (idx_name_new t)) = Rows (r # rs) \<and>
                        1 < length r \<and> \<not> truthy (r ! 1)"
    and ok: "\<forall>n q cls. db e n q \<noteq> OtherFailure cls"
  obtains s1 where "build_and_check c e t s = (Inr False, s1)"
proof -
  obtain sa where a: "dbquery c e (drop_stale_stmt (idx_name_new t)) False s = (Inr (), sa)"
    using ok by (rule dbquery_okE)
  obtain sb where b: "dbquery c e b False sa = (Inr (), sb)"
    using ok by (rule dbquery_okE)
  obtain r rs where r: "db e (execs sb) (idx_valid_query (idx_name_new t)) = Rows (r # rs)"
      "1 < length r" "\<not> truthy (r ! 1)"
    using inv by blast
  have "fst (check_valid c e t sb) = Inr False"
    using check_valid_row[OF nd r(1) r(2)] r(3) by simp
  then obtain s1 where "check_valid c e t sb = (Inr False, s1)"
    by (cases "check_valid c e t sb") auto
  then have "build_and_check c e t s = (Inr False, s1)"
    using a b str by (simp add: build_and_check_def seq_def)
  then show ?thesis by (rule that)
qed

lemma on_invalid_okE:
  assumes "\<forall>n q cls. db e n q \<noteq> OtherFailure cls"
  obtains s1 where "on_invalid c e t s = (Inr (), s1)"
proof -
  obtain sa where a: "dbquery c e (drop_stmt (idx_name_new t)) False s = (Inr (), sa)"
    using assms by (rule dbquery_okE)
  have "fst (on_invalid c e t s) = Inr ()"
    using a by (simp add: on_invalid_def seq_def pause_def)
  then show ?thesis using that by (cases "on_invalid c e t s") auto
qed

lemma fetch_definitionD:
  "fetch_definition c e name s = (Inr v, s1) \<Longrightarrow>
     issued (trace s1) = issued (trace s) @ [idx_create_new_query (py_str name)] \<and>
     sent (trace s1) = sent (trace s) @ [idx_create_new_query (py_str name)] \<and>
     printed (trace s1) = printed (trace s) \<and>
     counters s1 = counters s \<and> totals s1 = totals s"
  by (auto simp: fetch_definition_def seq_Inr lift_Inr dest!: dbqueryD fetchallD)

lemma set_timeout_dryrun:
  "dryrun c \<Longrightarrow>
   set_timeout c e s =
     (Inr (), if enforcetime c
              then s\<lparr>reads := reads s + 1,
                     trace := trace s @
                       [Printed (set_timeout_stmt (py_int (halt_time c - clock e (reads s)) + 30))]\<rparr>
              else s)"
  by (simp add: set_timeout_def time_now_def dbquery_def Let_def)

lemma retry_loop_dryrun:
  assumes "dryrun c" and "clock e (reads s) < halt_time c"
    and "retry_loop c e t (k # rest) s = (Inr u, s')"
  obtains s1 where "build_and_check c e t (s\<lparr>reads := reads s + 1\<rparr>) = (Inr True, s1)"
    and "on_valid c e t s1 = (Inr u, s')"
proof -
  let ?s0 = "s\<lparr>reads := reads s + 1\<rparr>"
  obtain r s1 where b: "build_and_check c e t ?s0 = (r, s1)"
    by (cases "build_and_check c e t ?s0")
  show ?thesis
  proof (cases r)
    case (Inl er)
    then show ?thesis using assms b by (simp add: time_now_def)
  next
    case (Inr v)
    then have "v" using build_and_checkD[of c e t ?s0 v s1] b assms(1) by simp
    then have "build_and_check c e t ?s0 = (Inr True, s1)" using b Inr by simp
    moreover from this have "on_valid c e t s1 = (Inr u, s')"
      using assms by (simp add: time_now_def)
    ultimately show ?thesis by (rule that)
  qed
qed

lemma dbquery_ok_state:
  assumes "\<forall>cls. db e (execs s) q \<noteq> OtherFailure cls" and "\<not> dryrun c"
  obtains s1 where "dbquery c e q od s = (Inr (), s1)" and "execs s1 = execs s + 1"
  using dbquery_ok[OF assms(1), of c od] dbquery_execs[of c od e q s] assms(2)
  by (cases "dbquery c e q od s") auto

lemma check_valid_empty:
  "\<not> dryrun c \<Longrightarrow> db e (execs s) (idx_valid_query (idx_name_new t)) = Rows [] \<Longrightarrow>
   fst (check_valid c e t s) = Inl IndexError"
  by (simp add: check_valid_def seq_def dbquery_def execute_def fetchall_def lift_def cell_def Let_def)

lemma fetch_definition_empty:
  "db e (execs s) (idx_create_new_query (py_str name)) = Rows [] \<Longrightarrow>
   fst (fetch_definition c e name s) = Inl IndexError"
  by (simp add: fetch_definition_def seq_def dbquery_def execute_def fetchall_def lift_def cell_def Let_def)

lemma read_size_before_empty:
  "db e (execs s) (idx_size_query (idx_name t)) = Rows [] \<Longrightarrow>
   fst (read_size_before c e t s) = Inl IndexError"
  by (simp add: read_size_before_def seq_def dbquery_def execute_def fetchall_def lift_def cell_def Let_def)

lemma retry_loop_empty_validity:
  assumes nd: "\<not> dryrun c"
    and clk: "clock e (reads s) < halt_time c"
    and str: "idx_create_new t = VStr b"
    and d: "\<forall>cls. db e (execs s) (drop_stale_stmt (idx_name_new t)) \<noteq> OtherFailure cls"
    and bl: "\<forall>cls. db e (execs s + 1) b \<noteq> OtherFailure cls"
    and em: "db e (execs s + 2) (idx_valid_query (idx_name_new t)) = Rows []"
  shows "fst (retry_loop c e t (k # rest) s) = Inl IndexError"
proof -
  let ?s0 = "s\<lparr>reads := reads s + 1\<rparr>"
  have d0: "\<forall>cls. db e (execs ?s0) (drop_stale_stmt (idx_name_new t)) \<noteq> OtherFailure cls"
    using d by simp
  obtain sa where a: "dbquery c e (drop_stale_stmt (idx_name_new t)) False ?s0 = (Inr (), sa)"
    and ea: "execs sa = execs ?s0 + 1"
    using d0 nd by (rule dbquery_ok_state)
  have b0: "\<forall>cls. db e (execs sa) b \<noteq> OtherFailure cls"
    using bl ea by simp
  obtain sb where b: "dbquery c e b False sa = (Inr (), sb)" and eb: "execs sb = execs sa + 1"
    using b0 nd by (rule dbquery_ok_state)
  have "db e (execs sb) (idx_valid_query (idx_name_new t)) = Rows []"
    using em ea eb by simp
  then have "fst (check_valid c e t sb) = Inl IndexError"
    using nd by (simp add: check_valid_empty)
  then obtain s1 where "check_valid c e t sb = (Inl IndexError, s1)"
    by (cases "check_valid c e t sb") auto
  then have "build_and_check c e t ?s0 = (Inl IndexError, s1)"
    using a b str by (simp add: build_and_check_def seq_def)
  then show ?thesis using clk by (simp add: time_now_def)
qed

lemma run_propagates:
  "fst (process_index c e (VStr i) s) = Inl er \<Longrightarrow> fst (run c e (i # others) tabs s) = Inl er"
  by (cases "process_index c e (VStr i) s") (auto simp: run_def seq_def)

lemmas index_defs = process_index_def set_timeout_def fetch_definition_def upto.simps

lemma dbquery_execs_mono: "execs s \<le> execs (snd (dbquery c e q od s))"
  by (simp add: dbquery_def execute_def report_def Let_def split: outcome.splits)

lemma dbquery_ok_from:
  assumes "\<forall>n q cls. N \<le> n \<longrightarrow> db e n q \<noteq> OtherFailure cls" and "N \<le> execs s"
  obtains s2 where "dbquery c e q od s = (Inr (), s2)" and "N \<le> execs s2"
proof -
  have "fst (dbquery c e q od s) = Inr ()"
    using assms by (intro dbquery_ok) simp
  moreover have "N \<le> execs (snd (dbquery c e q od s))"
    using assms(2) dbquery_execs_mono[of s c e q od] by simp
  ultimately show ?thesis using that by (cases "dbquery c e q od s") auto
qed

lemma swap_ok_from:
  assumes ok: "\<forall>n q cls. N \<le> n \<longrightarrow> db e n q \<noteq> OtherFailure cls" and n: "N \<le> execs s"
  obtains s2 where "swap c e t s = (Inr (), s2)"
proof (cases "is_pk t")
  case True
  obtain s1 where 1: "dbquery c e (analyse_stmt (table t)) False s = (Inr (), s1)" "N \<le> execs s1"
    using ok n by (rule dbquery_ok_from)
  obtain s2 where 2: "dbquery c e ''BEGIN'' False s1 = (Inr (), s2)" "N \<le> execs s2"
    using ok 1(2) by (rule dbquery_ok_from)
  obtain s3 where 3: "dbquery c e (drop_constraint_stmt (table t) (idx_name t)) False s2 = (Inr (), s3)"
      "N \<le> execs s3"
    using ok 2(2) by (rule dbquery_ok_from)
  obtain s4 where 4: "dbquery c e (rename_stmt (idx_name_new t) (idx_name t)) False s3 = (Inr (), s4)"
      "N \<le> execs s4"
    using ok 3(2) by (rule dbquery_ok_from)
  obtain s5 where 5: "dbquery c e (add_pk_stmt (table t) (idx_name t)) False s4 = (Inr (), s5)"
      "N \<le> execs s5"
    using ok 4(2) by (rule dbquery_ok_from)
  obtain s6 where 6: "dbquery c e ''COMMIT'' False s5 = (Inr (), s6)" "N \<le> execs s6"
    using ok 5(2) by (rule dbquery_ok_from)
  obtain s7 where 7: "dbquery c e (analyse_stmt (table t)) False s6 = (Inr (), s7)" "N \<le> execs s7"
    using ok 6(2) by (rule dbquery_ok_from)
  have "swap c e t s = (Inr (), s7)"
    using True 1(1) 2(1) 3(1) 4(1) 5(1) 6(1) 7(1) by (simp add: swap_def seq_def)
  then show ?thesis by (rule that)
next
  case False
  obtain s1 where 1: "dbquery c e (analyse_stmt (table t)) False s = (Inr (), s1)" "N \<le> execs s1"
    using ok n by (rule dbquery_ok_from)
  obtain s2 where 2: "dbquery c e (drop_stmt (idx_name t)) False s1 = (Inr (), s2)" "N \<le> execs s2"
    using ok 1(2) by (rule dbquery_ok_from)
  obtain s3 where 3: "dbquery c e (rename_stmt (idx_name_new t) (idx_name t)) False s2 = (Inr (), s3)"
      "N \<le> execs s3"
    using ok 2(2) by (rule dbquery_ok_from)
  obtain s4 where 4: "dbquery c e (analyse_stmt (table t)) False s3 = (Inr (), s4)" "N \<le> execs s4"
    using ok 3(2) by (rule dbquery_ok_from)
  have "swap c e t s = (Inr (), s4)"
    using False 1(1) 2(1) 3(1) 4(1) by (simp add: swap_def seq_def)
  then show ?thesis by (rule that)
qed

lemma read_size_before_row:
  assumes "db e (execs s) (idx_size_query (idx_name t)) = Rows ((v # r) # rs)"
  obtains s2 where "read_size_before c e t s = (Inr v, s2)" and "execs s2 = execs s + 1"
    and "total_idx_size_before s2 = total_idx_size_before s"
    and "total_idx_size_after s2 = total_idx_size_after s"
proof -
  let ?s2 = "snd (read_size_before c e t s)"
  have "fst (read_size_before c e t s) = Inr v \<and> execs ?s2 = execs s + 1 \<and>
        total_idx_size_before ?s2 = total_idx_size_before s \<and>
        total_idx_size_after ?s2 = total_idx_size_after s"
    using assms
    by (simp add: read_size_before_def seq_def dbquery_def execute_def fetchall_def lift_def
          cell_def Let_def)
  then show ?thesis using that[of ?s2] by (simp add: prod_eq_iff)
qed

lemma py_number_add: "py_number v \<Longrightarrow> \<exists>n. py_add t v = Inr n"
  by (cases v) simp_all

lemma add_size_before_number:
  assumes "py_number v"
  obtains s2 where "add_size_before v s = (Inr (), s2)" and "execs s2 = execs s"
    and "total_idx_size_after s2 = total_idx_size_after s"
proof -
  obtain n where "py_add (total_idx_size_before s) v = Inr n"
    using py_number_add[OF assms] by blast
  then have "add_size_before v s = (Inr (), s\<lparr>total_idx_size_before := n\<rparr>)"
    by (simp add: add_size_before_def)
  then show ?thesis using that by simp
qed

lemma add_size_after_number:
  assumes "py_number v"
  obtains s2 where "add_size_after v s = (Inr (), s2)" and "execs s2 = execs s"
proof -
  obtain n where "py_add (total_idx_size_after s) v = Inr n"
    using py_number_add[OF assms] by blast
  then have "add_size_after v s = (Inr (), s\<lparr>total_idx_size_after := n\<rparr>)"
    by (simp add: add_size_after_def)
  then show ?thesis using that by simp
qed

lemma read_size_after_ok:
  assumes vb: "py_number vb"
    and sa: "\<not> dryrun c \<longrightarrow>
               (\<exists>va ra rsa. db e (execs s) (idx_size_query (idx_name_new t)) = Rows ((va # ra) # rsa) \<and>
                             py_number va)"
  obtains sd w s2 where
    "dbquery c e (idx_size_query (idx_name_new t)) False s = (Inr (), sd)" and
    "(if \<not> dryrun c then seq fetchall (\<lambda>rows. lift (cell rows 0)) else lift (Inr vb)) sd
     = (Inr w, s2)" and "py_number w" and "execs s \<le> execs s2"
proof (cases "dryrun c")
  case True
  let ?sd = "s\<lparr>trace := trace s @ [Printed (idx_size_query (idx_name_new t))]\<rparr>"
  have "dbquery c e (idx_size_query (idx_name_new t)) False s = (Inr (), ?sd)"
    using True by (simp add: dbquery_def)
  moreover have "(if \<not> dryrun c then seq fetchall (\<lambda>rows. lift (cell rows 0)) else lift (Inr vb)) ?sd
     = (Inr vb, ?sd)"
    using True by (simp add: lift_def)
  ultimately show ?thesis using that[of ?sd vb ?sd] vb by simp
next
  case False
  then obtain va ra rsa where
    r: "db e (execs s) (idx_size_query (idx_name_new t)) = Rows ((va # ra) # rsa)" "py_number va"
    using sa by blast
  let ?sd = "snd (dbquery c e (idx_size_query (idx_name_new t)) False s)"
  let ?m = "(if \<not> dryrun c then seq fetchall (\<lambda>rows. lift (cell rows 0)) else lift (Inr vb)) ?sd"
  have 1: "dbquery c e (idx_size_query (idx_name_new t)) False s = (Inr (), ?sd)"
    using False r(1) by (simp add: dbquery_def execute_def Let_def)
  have "fst ?m = Inr va \<and> execs s \<le> execs (snd ?m)"
    using False r(1)
    by (simp add: seq_def dbquery_def execute_def fetchall_def lift_def cell_def Let_def)
  then have 2: "?m = (Inr va, snd ?m)" "execs s \<le> execs (snd ?m)"
    by (simp_all add: prod_eq_iff)
  show ?thesis using that[OF 1 2(1) r(2) 2(2)] .
qed

lemma on_valid_ok:
  assumes sb: "db e (execs s) (idx_size_query (idx_name t)) = Rows ((vb # rb) # rsb)"
    and nb: "py_number vb"
    and sa: "\<not> dryrun c \<longrightarrow>
               (\<exists>va ra rsa. db e (execs s + 1) (idx_size_query (idx_name_new t)) =
                               Rows ((va # ra) # rsa) \<and> py_number va)"
    and ok: "\<forall>n q cls. execs s \<le> n \<longrightarrow> db e n q \<noteq> OtherFailure cls"
  obtains s' where "on_valid c e t s = (Inr (), s')"
proof -
  obtain s1 where 1: "read_size_before c e t s = (Inr vb, s1)" "execs s1 = execs s + 1"
    using sb by (rule read_size_before_row)
  obtain s2 where 2: "add_size_before vb s1 = (Inr (), s2)" "execs s2 = execs s1"
    using nb by (rule add_size_before_number)
  have sa2: "\<not> dryrun c \<longrightarrow>
               (\<exists>va ra rsa. db e (execs s2) (idx_size_query (idx_name_new t)) =
                               Rows ((va # ra) # rsa) \<and> py_number va)"
    using sa 1(2) 2(2) by simp
  obtain sd w s3 where 3:
    "dbquery c e (idx_size_query (idx_name_new t)) False s2 = (Inr (), sd)"
    "(if \<not> dryrun c then seq fetchall (\<lambda>rows. lift (cell rows 0)) else lift (Inr vb)) sd
     = (Inr w, s3)" "py_number w" "execs s2 \<le> execs s3"
    using nb sa2 by (rule read_size_after_ok)
  obtain s4 where 4: "add_size_after w s3 = (Inr (), s4)" "execs s4 = execs s3"
    using 3(3) by (rule add_size_after_number)
  have "execs s \<le> execs s4" using 1(2) 2(2) 3(4) 4(2) by simp
  with ok obtain s5 where 5: "swap c e t s4 = (Inr (), s5)"
    by (rule swap_ok_from)
  have "fst (on_valid c e t s) = Inr ()"
    using 1(1) 2(1) 3(1) 3(2) 4(1) 5
    by (simp add: on_valid_def seq_def pause_def)
  then show ?thesis using that by (cases "on_valid c e t s") auto
qed

lemma check_valid_issued:
  "issued (trace (snd (check_valid c e t s))) = issued (trace s) @ [idx_valid_query (idx_name_new t)]"
proof -
  obtain r s1 where d: "dbquery c e (idx_valid_query (idx_name_new t)) True s = (r, s1)"
    by (cases "dbquery c e (idx_valid_query (idx_name_new t)) True s")
  have "trace (snd (check_valid c e t s)) = trace s1"
    using d
    by (cases r)
       (simp_all add: check_valid_def seq_def lift_def fetchall_def cell_def
          split: option.splits list.splits)
  then show ?thesis using dbqueryD[OF d] by simp
qed

lemma build_and_check_issued_prefix:
  "prefix (issued (trace (snd (build_and_check c e t s))))
     (issued (trace s) @
      [drop_stale_stmt (idx_name_new t), py_str (idx_create_new t),
       idx_valid_query (idx_name_new t)])"
proof -
  obtain r1 sa where a: "dbquery c e (drop_stale_stmt (idx_name_new t)) False s = (r1, sa)"
    by (cases "dbquery c e (drop_stale_stmt (idx_name_new t)) False s")
  note fa = dbqueryD[OF a]
  show ?thesis
  proof (cases r1)
    case (Inl er)
    then show ?thesis using a fa by (simp add: build_and_check_def seq_def)
  next
    case r1: (Inr u)
    show ?thesis
    proof (cases "idx_create_new t")
      case (VStr b)
      obtain r2 sb where b: "dbquery c e b False sa = (r2, sb)"
        by (cases "dbquery c e b False sa")
      note fb = dbqueryD[OF b]
      show ?thesis
      proof (cases r2)
        case (Inl er)
        then show ?thesis using a r1 VStr b fa fb by (simp add: build_and_check_def seq_def)
      next
        case (Inr u2)
        then have "build_and_check c e t s = check_valid c e t sb"
          using a r1 VStr b by (simp add: build_and_check_def seq_def)
        then show ?thesis using check_valid_issued[of c e t sb] fa fb VStr by simp
      qed
    qed (use a r1 fa in \<open>simp_all add: build_and_check_def seq_def\<close>)
  qed
qed

lemma on_invalid_issued:
  "issued (trace (snd (on_invalid c e t s))) = issued (trace s) @ [drop_stmt (idx_name_new t)]"
proof -
  obtain r s1 where d: "dbquery c e (drop_stmt (idx_name_new t)) False s = (r, s1)"
    by (cases "dbquery c e (drop_stmt (idx_name_new t)) False s")
  have "issued (trace (snd (on_invalid c e t s))) = issued (trace s1)"
    using d by (cases r) (simp_all add: on_invalid_def seq_def pause_def)
  then show ?thesis using dbqueryD[OF d] by simp
qed

lemma build_and_check_never_valid:
  assumes nd: "\<not> dryrun c"
    and inv: "\<forall>n. \<exists>r rs. db e n (idx_valid_query (idx_name_new t)) = Rows (r # rs) \<and>
                        1 < length r \<and> \<not> truthy (r ! 1)"
    and b: "build_and_check c e t s = (Inr v, s1)"
  shows "\<not> v"
proof -
  from b obtain sb where cv: "check_valid c e t sb = (Inr v, s1)"
    by (auto simp: build_and_check_def seq_Inr)
  obtain r rs where r: "db e (execs sb) (idx_valid_query (idx_name_new t)) = Rows (r # rs)"
      "1 < length r" "\<not> truthy (r ! 1)"
    using inv by blast
  show ?thesis using check_valid_row[OF nd r(1) r(2)] r(3) cv by simp
qed

lemma exhausted_loop_issues_rounds:
  assumes nd: "\<not> dryrun c"
    and inv: "\<forall>n. \<exists>r rs. db e n (idx_valid_query (idx_name_new t)) = Rows (r # rs) \<and>
                        1 < length r \<and> \<not> truthy (r ! 1)"
  shows "\<exists>m\<le>length ks.
           prefix (issued (trace (snd (retry_loop c e t ks s))))
             (issued (trace s) @
              concat (replicate m [drop_stale_stmt (idx_name_new t), py_str (idx_create_new t),
                                   idx_valid_query (idx_name_new t), drop_stmt (idx_name_new t)]))"
proof (induction ks arbitrary: s)
  case Nil
  show ?case by simp
next
  case (Cons k ks)
  let ?s0 = "s\<lparr>reads := reads s + 1\<rparr>"
  let ?round = "[drop_stale_stmt (idx_name_new t), py_str (idx_create_new t),
                 idx_valid_query (idx_name_new t), drop_stmt (idx_name_new t)]"
  show ?case
  proof (cases "halt_time c \<le> clock e (reads s)")
    case True
    then show ?thesis by (intro exI[of _ 0]) (simp add: time_now_def)
  next
    case False
    obtain r s1 where b: "build_and_check c e t ?s0 = (r, s1)"
      by (cases "build_and_check c e t ?s0")
    have p1: "prefix (issued (trace s1))
                (issued (trace s) @
                 [drop_stale_stmt (idx_name_new t), py_str (idx_create_new t),
                  idx_valid_query (idx_name_new t)])"
      using build_and_check_issued_prefix[of c e t ?s0] b by simp
    show ?thesis
    proof (cases r)
      case (Inl er)
      have "prefix (issued (trace s) @
                 [drop_stale_stmt (idx_name_new t), py_str (idx_create_new t),
                  idx_valid_query (idx_name_new t)])
              (issued (trace s) @ concat (replicate 1 ?round))"
        by simp
      with p1 have "prefix (issued (trace s1)) (issued (trace s) @ concat (replicate 1 ?round))"
        by (rule prefix_order.trans)
      then show ?thesis
        using False b Inl by (intro exI[of _ 1]) (simp add: time_now_def)
    next
      case (Inr v)
      have nv: "\<not> v" using build_and_check_never_valid[OF nd inv] b Inr by blast
      have i1: "issued (trace s1) =
                  issued (trace s) @
                  [drop_stale_stmt (idx_name_new t), py_str (idx_create_new t),
                   idx_valid_query (idx_name_new t)]"
        using build_and_checkD[of c e t ?s0 v s1] b Inr by simp
      obtain r2 s2 where i: "on_invalid c e t s1 = (r2, s2)"
        by (cases "on_invalid c e t s1")
      have i2: "issued (trace s2) = issued (trace s) @ ?round"
        using on_invalid_issued[of c e t s1] i i1 by simp
      show ?thesis
      proof (cases r2)
        case (Inl er)
        then show ?thesis
          using False b Inr nv i i2 by (intro exI[of _ 1]) (simp add: time_now_def)
      next
        case r2: (Inr u)
        from Cons.IH[of s2] obtain m where m: "m \<le> length ks"
          "prefix (issued (trace (snd (retry_loop c e t ks s2))))
             (issued (trace s2) @ concat (replicate m ?round))"
          by blast
        have "retry_loop c e t (k # ks) s = retry_loop c e t ks s2"
          using False b Inr nv i r2 by (simp add: time_now_def)
        then show ?thesis
          using m i2 by (intro exI[of _ "Suc m"]) simp
      qed
    qed
  qed
qed

lemma replacement_present_sleeps:
  "\<forall>ev\<in>set sl. \<exists>n. ev = Slept n \<Longrightarrow> replacement_present t p sl = p"
  by (induction sl) auto

lemma replacement_present_after_drop:
  assumes "\<forall>ev\<in>set sl. \<exists>n. ev = Slept n"
  shows "replacement_present t p (xs @ Executed (drop_stmt (idx_name_new t)) # sl) = False"
proof (induction t p xs rule: replacement_present.induct)
  case (1 t p)
  show ?case
  proof (cases sl)
    case Nil
    then show ?thesis by (simp add: effect_def)
  next
    case (Cons ev sl')
    then obtain n where "ev = Slept n" using assms by auto
    then show ?thesis
      using Cons assms replacement_present_sleeps[of sl' t False] by (simp add: effect_def)
  qed
qed simp_all

lemma on_invalid_carried_out:
  assumes "\<not> dryrun c"
    and "db e (execs s) (drop_stmt (idx_name_new t)) = Done \<or>
         (\<exists>rs. db e (execs s) (drop_stmt (idx_name_new t)) = Rows rs)"
  shows "\<exists>sl. trace (snd (on_invalid c e t s)) = trace s @ Executed (drop_stmt (idx_name_new t)) # sl \<and>
              (\<forall>ev\<in>set sl. \<exists>n. ev = Slept n)"
  using assms
  by (auto simp: on_invalid_def seq_def dbquery_def execute_def pause_def Let_def)

lemma exhausted_loop_sent:
  assumes nd: "\<not> dryrun c"
    and inv: "\<forall>n. \<exists>r rs. db e n (idx_valid_query (idx_name_new t)) = Rows (r # rs) \<and>
                        1 < length r \<and> \<not> truthy (r ! 1)"
    and str: "idx_create_new t = VStr b"
    and ok: "\<forall>n q cls. db e n q \<noteq> OtherFailure cls"
  shows "\<exists>m s'. retry_loop c e t ks s = (Inr (), s') \<and>
           m \<le> length ks \<and>
           ((\<forall>n. clock e n < halt_time c) \<longrightarrow> m = length ks) \<and>
           sent (trace s') =
             sent (trace s) @
             concat (replicate m [drop_stale_stmt (idx_name_new t), b,
                                  idx_valid_query (idx_name_new t), drop_stmt (idx_name_new t)]) \<and>
           idxcount_success s' = idxcount_success s \<and>
           idxcount_retries s' = idxcount_retries s + int m \<and>
           (m = 0 \<longrightarrow> trace s' = trace s) \<and>
           ((\<forall>n. db e n (drop_stmt (idx_name_new t)) = Done \<or>
                 (\<exists>rs. db e n (drop_stmt (idx_name_new t)) = Rows rs)) \<and> 0 < m \<longrightarrow>
              (\<exists>xs sl. trace s' = xs @ Executed (drop_stmt (idx_name_new t)) # sl \<and>
                       (\<forall>ev\<in>set sl. \<exists>n. ev = Slept n)))"
proof (induction ks arbitrary: s)
  case Nil
  show ?case by simp
next
  case (Cons k ks)
  let ?s0 = "s\<lparr>reads := reads s + 1\<rparr>"
  let ?drop = "drop_stmt (idx_name_new t)"
  let ?round = "[drop_stale_stmt (idx_name_new t), b,
                 idx_valid_query (idx_name_new t), ?drop]"
  let ?dropped = "\<forall>n. db e n ?drop = Done \<or> (\<exists>rs. db e n ?drop = Rows rs)"
  show ?case
  proof (cases "halt_time c \<le> clock e (reads s)")
    case True
    then have "retry_loop c e t (k # ks) s = (Inr (), ?s0\<lparr>time_exit := True\<rparr>)"
      by (simp add: time_now_def)
    moreover have "\<not> (\<forall>n. clock e n < halt_time c)"
      using True by (auto simp: not_less intro: exI[of _ "reads s"])
    ultimately show ?thesis
      by (intro exI[of _ 0] exI[of _ "?s0\<lparr>time_exit := True\<rparr>"]) simp
  next
    case False
    obtain s1 where b1: "build_and_check c e t ?s0 = (Inr False, s1)"
      using nd str inv ok by (rule build_and_check_invalid)
    obtain s2 where i2: "on_invalid c e t s1 = (Inr (), s2)"
      using ok by (rule on_invalid_okE)
    from Cons.IH[of s2] obtain m s' where ih:
      "retry_loop c e t ks s2 = (Inr (), s')" "m \<le> length ks"
      "(\<forall>n. clock e n < halt_time c) \<longrightarrow> m = length ks"
      "sent (trace s') = sent (trace s2) @ concat (replicate m ?round)"
      "idxcount_success s' = idxcount_success s2"
      "idxcount_retries s' = idxcount_retries s2 + int m"
      "m = 0 \<longrightarrow> trace s' = trace s2"
      "?dropped \<and> 0 < m \<longrightarrow>
         (\<exists>xs sl. trace s' = xs @ Executed ?drop # sl \<and> (\<forall>ev\<in>set sl. \<exists>n. ev = Slept n))"
      by blast
    note f1 = build_and_checkD[OF b1]
    note f2 = on_invalidD[OF i2]
    have r: "retry_loop c e t (k # ks) s = (Inr (), s')"
      using False b1 i2 ih(1) by (simp add: time_now_def)
    have i: "sent (trace s') = sent (trace s) @ concat (replicate (Suc m) ?round)"
      using f1 f2 ih(4) str nd by simp
    have cn: "idxcount_success s' = idxcount_success s \<and>
              idxcount_retries s' = idxcount_retries s + int (Suc m)"
      using f1 f2 ih(5) ih(6) by (simp add: counters_def)
    have e: "\<exists>xs sl. trace s' = xs @ Executed ?drop # sl \<and> (\<forall>ev\<in>set sl. \<exists>n. ev = Slept n)"
      if d: "?dropped"
    proof (cases "m = 0")
      case True
      have "db e (execs s1) ?drop = Done \<or> (\<exists>rs. db e (execs s1) ?drop = Rows rs)"
        using d by blast
      from on_invalid_carried_out[OF nd this] i2 obtain sl where
        "trace s2 = trace s1 @ Executed ?drop # sl" "\<forall>ev\<in>set sl. \<exists>n. ev = Slept n"
        by auto
      then show ?thesis using ih(7) True by auto
    next
      case False
      then show ?thesis using ih(8) d by blast
    qed
    show ?thesis
      using r i cn ih(2) ih(3) e by (intro exI[of _ "Suc m"] exI[of _ s']) simp
  qed
qed




section \<open>The claims\<close>

text \<open>
  C1, as the code has it. Take a round of the retry loop in which the replacement is found
  valid (\<open>build_and_check\<close> returns true). When the lookup of the size before returns a
  row that starts with a number, outside dry-run mode the lookup of the size after does
  too, and no later statement fails with an unclassified error, the round returns
  normally and the statements after the validity check are these, in this order: the
  two size lookups, then for an index that backs a primary key \<^verbatim>\<open>ANALYSE\<close>,
  \<^verbatim>\<open>BEGIN\<close>, drop constraint, rename of the replacement to the original name, add
  primary key using the index, \<^verbatim>\<open>COMMIT\<close>; for any other index \<^verbatim>\<open>ANALYSE\<close>, the
  non-blocking drop of the original and the rename, with no \<^verbatim>\<open>BEGIN\<close> and
  \<^verbatim>\<open>COMMIT\<close>; in both cases a last \<^verbatim>\<open>ANALYSE\<close> of the table. Outside dry-run mode
  every one of them is sent to the server and none is printed; in dry-run mode only the
  lookup of the size before is sent and the others are printed.
\<close>

theorem valid_replacement_swap_protocol:
  assumes "clock e (reads s) < halt_time c"
    and "build_and_check c e t (s\<lparr>reads := reads s + 1\<rparr>) = (Inr True, s1)"
    and "db e (execs s1) (idx_size_query (idx_name t)) = Rows ((vb # rb) # rsb)"
    and "py_number vb"
    and "\<not> dryrun c \<longrightarrow>
           (\<exists>va ra rsa. db e (execs s1 + 1) (idx_size_query (idx_name_new t)) =
                           Rows ((va # ra) # rsa) \<and> py_number va)"
    and "\<forall>n q cls. execs s1 \<le> n \<longrightarrow> db e n q \<noteq> OtherFailure cls"
  shows "\<exists>s'. retry_loop c e t (k # rest) s = (Inr (), s') \<and>
           sent (trace s') =
             sent (trace s1) @
             (if dryrun c then [idx_size_query (idx_name t)]
              else
                [idx_size_query (idx_name t), idx_size_query (idx_name_new t)] @
                (if is_pk t then
                   [analyse_stmt (table t), ''BEGIN'',
                    drop_constraint_stmt (table t) (idx_name t),
                    rename_stmt (idx_name_new t) (idx_name t),
                    add_pk_stmt (table t) (idx_name t), ''COMMIT'']
                 else
                   [analyse_stmt (table t), drop_stmt (idx_name t),
                    rename_stmt (idx_name_new t) (idx_name t)]) @
                [analyse_stmt (table t)]) \<and>
           printed (trace s') =
             printed (trace s1) @
             (if dryrun c then
                [idx_size_query (idx_name_new t)] @
                (if is_pk t then
                   [analyse_stmt (table t), ''BEGIN'',
                    drop_constraint_stmt (table t) (idx_name t),
                    rename_stmt (idx_name_new t) (idx_name t),
                    add_pk_stmt (table t) (idx_name t), ''COMMIT'']
                 else
                   [analyse_stmt (table t), drop_stmt (idx_name t),
                    rename_stmt (idx_name_new t) (idx_name t)]) @
                [analyse_stmt (table t)]
              else [])"
proof -
  obtain s' where v: "on_valid c e t s1 = (Inr (), s')"
    using assms(3-6) by (rule on_valid_ok)
  have r: "retry_loop c e t (k # rest) s = (Inr (), s')"
    using assms(1,2) v retry_loop_valid[of e s c t s1 k rest] by simp
  from on_validD[OF v] r show ?thesis
    by (intro exI[of _ s']) (simp add: swap_stmts_def)
qed

theorem valid_replacement_swap_protocol_witness:
  "sent (trace (snd (retry_loop example_config valid_env example_locals [1, 2] initial))) =
     [drop_stale_stmt ''idx_a_new'', ''CREATE INDEX CONCURRENTLY idx_a_new ON tab (a)'',
      idx_valid_query ''idx_a_new'', idx_size_query ''idx_a'', idx_size_query ''idx_a_new'',
      analyse_stmt ''tab'', drop_stmt ''idx_a'', rename_stmt ''idx_a_new'' ''idx_a'',
      analyse_stmt ''tab'']
   \<and> sent (trace (snd (retry_loop example_config valid_env (example_locals\<lparr>is_pk := True\<rparr>)
                          [1, 2] initial))) =
     [drop_stale_stmt ''idx_a_new'', ''CREATE INDEX CONCURRENTLY idx_a_new ON tab (a)'',
      idx_valid_query ''idx_a_new'', idx_size_query ''idx_a'', idx_size_query ''idx_a_new'',
      analyse_stmt ''tab'', ''BEGIN'', drop_constraint_stmt ''tab'' ''idx_a'',
      rename_stmt ''idx_a_new'' ''idx_a'', add_pk_stmt ''tab'' ''idx_a'', ''COMMIT'',
      analyse_stmt ''tab'']"
proof -
  let ?c = example_config and ?e = valid_env
  have g: "sent (trace (snd (retry_loop ?c ?e t [1, 2] initial))) =
       [drop_stale_stmt (idx_name_new t), ''CREATE INDEX CONCURRENTLY idx_a_new ON tab (a)'',
        idx_valid_query (idx_name_new t), idx_size_query (idx_name t),
        idx_size_query (idx_name_new t)] @
       (if is_pk t then
          [analyse_stmt (table t), ''BEGIN'', drop_constraint_stmt (table t) (idx_name t),
           rename_stmt (idx_name_new t) (idx_name t), add_pk_stmt (table t) (idx_name t),
           ''COMMIT'']
        else
          [analyse_stmt (table t), drop_stmt (idx_name t),
           rename_stmt (idx_name_new t) (idx_name t)]) @
       [analyse_stmt (table t)]"
    if t: "idx_create_new t = VStr ''CREATE INDEX CONCURRENTLY idx_a_new ON tab (a)''" for t
  proof -
    let ?s1 = "snd (build_and_check ?c ?e t (initial\<lparr>reads := 1\<rparr>))"
    have clk: "clock ?e (reads initial) < halt_time ?c"
      by (simp add: example_config_def valid_env_def)
    have b: "fst (build_and_check ?c ?e t (initial\<lparr>reads := 1\<rparr>)) = Inr True"
      "execs ?s1 = 3"
      "sent (trace ?s1) =
         [drop_stale_stmt (idx_name_new t), ''CREATE INDEX CONCURRENTLY idx_a_new ON tab (a)'',
          idx_valid_query (idx_name_new t)]"
      using t by (simp_all add: run_defs example_config_def valid_env_def initial_def)
    have 1: "build_and_check ?c ?e t (initial\<lparr>reads := reads initial + 1\<rparr>) = (Inr True, ?s1)"
      using b(1) by (simp add: prod_eq_iff initial_def)
    have 2: "db ?e (execs ?s1) (idx_size_query (idx_name t)) = Rows ((VInt 8192 # []) # [])"
      unfolding b(2) by (simp add: valid_env_def)
    have 3: "py_number (VInt 8192)" by simp
    have 4: "\<not> dryrun ?c \<longrightarrow>
           (\<exists>va ra rsa. db ?e (execs ?s1 + 1) (idx_size_query (idx_name_new t)) =
                           Rows ((va # ra) # rsa) \<and> py_number va)"
      unfolding b(2) by (simp add: valid_env_def)
    have 5: "\<forall>n q cls. execs ?s1 \<le> n \<longrightarrow> db ?e n q \<noteq> OtherFailure cls"
      by (simp add: valid_env_def)
    from valid_replacement_swap_protocol [OF clk 1 2 3 4 5, of 1 "[2]"]
    obtain s' where r: "retry_loop ?c ?e t [1, 2] initial = (Inr (), s')"
      and s: "sent (trace s') =
             sent (trace ?s1) @
             (if dryrun ?c then [idx_size_query (idx_name t)]
              else
                [idx_size_query (idx_name t), idx_size_query (idx_name_new t)] @
                (if is_pk t then
                   [analyse_stmt (table t), ''BEGIN'',
                    drop_constraint_stmt (table t) (idx_name t),
                    rename_stmt (idx_name_new t) (idx_name t),
                    add_pk_stmt (table t) (idx_name t), ''COMMIT'']
                 else
                   [analyse_stmt (table t), drop_stmt (idx_name t),
                    rename_stmt (idx_name_new t) (idx_name t)]) @
                [analyse_stmt (table t)])"
      by blast
    show ?thesis using r s b(3) by (simp add: example_config_def)
  qed
  show ?thesis
    using g[of example_locals] g[of "example_locals\<lparr>is_pk := True\<rparr>"]
    by (simp add: example_locals_def)
qed

text \<open>
  C1 as stated fails for an index whose replacement is found valid. First input: the
  server answers the lookup of the size before with a database error; \<^verbatim>\<open>dbquery\<close>
  absorbs it, \<^verbatim>\<open>cur.fetchall()\<close> raises, and no statement of the swap is sent or
  printed. Second input: \<^verbatim>\<open>BEGIN\<close> fails with an unclassified error, which ends the
  run inside the swap: the constraint is never dropped, the replacement never renamed.
\<close>

theorem valid_replacement_without_swap:
  "fst (build_and_check example_config sizeless_env (example_locals\<lparr>is_pk := True\<rparr>)
         (initial\<lparr>reads := 1\<rparr>)) = Inr True
   \<and> fst (retry_loop example_config sizeless_env (example_locals\<lparr>is_pk := True\<rparr>) [1, 2] initial) =
       Inl ProgrammingError
   \<and> sent (trace (snd (retry_loop example_config sizeless_env (example_locals\<lparr>is_pk := True\<rparr>)
                          [1, 2] initial))) =
       [drop_stale_stmt ''idx_a_new'', ''CREATE INDEX CONCURRENTLY idx_a_new ON tab (a)'',
        idx_valid_query ''idx_a_new'', idx_size_query ''idx_a'']
   \<and> printed (trace (snd (retry_loop example_config sizeless_env (example_locals\<lparr>is_pk := True\<rparr>)
                          [1, 2] initial))) = []
   \<and> fst (build_and_check example_config aborting_env (example_locals\<lparr>is_pk := True\<rparr>)
         (initial\<lparr>reads := 1\<rparr>)) = Inr True
   \<and> fst (retry_loop example_config aborting_env (example_locals\<lparr>is_pk := True\<rparr>) [1, 2] initial) =
       Inl (Unexpected ''SystemExit'')
   \<and> sent (trace (snd (retry_loop example_config aborting_env (example_locals\<lparr>is_pk := True\<rparr>)
                          [1, 2] initial))) =
       [drop_stale_stmt ''idx_a_new'', ''CREATE INDEX CONCURRENTLY idx_a_new ON tab (a)'',
        idx_valid_query ''idx_a_new'', idx_size_query ''idx_a'', idx_size_query ''idx_a_new'',
        analyse_stmt ''tab'', ''BEGIN'']"
  by (simp add: run_defs example_config_def sizeless_env_def aborting_env_def example_locals_def
        initial_def)

text \<open>
  C2, as the code has it. For every attempt number \<open>k\<close> up to the retry count: when the
  validity check of attempt \<open>k\<close> gives true, the loop ends with whatever the branch of
  the valid replacement does, and the later attempt numbers are not run. When moreover
  the lookup of the size before returns a row that starts with a number, outside
  dry-run mode the lookup of the size after does too, and no later statement fails with
  an unclassified error, the loop returns normally, the success counter has grown by
  one, the retry counter is unchanged, and the statements of the loop hold one build and
  one swap: outside dry-run mode all of them are sent to the server, in dry-run mode the
  two lookups are sent and the others are printed.
\<close>

theorem valid_attempt_swaps_once:
  assumes "k \<le> retries c"
    and "clock e (reads s) < halt_time c"
    and "build_and_check c e t (s\<lparr>reads := reads s + 1\<rparr>) = (Inr True, s1)"
  shows "retry_loop c e t [k..retries c] s = on_valid c e t s1 \<and>
         (db e (execs s1) (idx_size_query (idx_name t)) = Rows ((vb # rb) # rsb) \<and>
          py_number vb \<and>
          (\<not> dryrun c \<longrightarrow>
             (\<exists>va ra rsa. db e (execs s1 + 1) (idx_size_query (idx_name_new t)) =
                             Rows ((va # ra) # rsa) \<and> py_number va)) \<and>
          (\<forall>n q cls. execs s1 \<le> n \<longrightarrow> db e n q \<noteq> OtherFailure cls) \<longrightarrow>
          (\<exists>s'. retry_loop c e t [k..retries c] s = (Inr (), s') \<and>
             idxcount_success s' = idxcount_success s + 1 \<and>
             idxcount_retries s' = idxcount_retries s \<and>
             sent (trace s') =
               sent (trace s) @
               (if dryrun c then
                  [idx_valid_query (idx_name_new t), idx_size_query (idx_name t)]
                else
                  [drop_stale_stmt (idx_name_new t), py_str (idx_create_new t),
                   idx_valid_query (idx_name_new t),
                   idx_size_query (idx_name t), idx_size_query (idx_name_new t)] @
                  swap_stmts t) \<and>
             printed (trace s') =
               printed (trace s) @
               (if dryrun c then
                  [drop_stale_stmt (idx_name_new t), py_str (idx_create_new t),
                   idx_size_query (idx_name_new t)] @
                  swap_stmts t
                else [])))"
proof -
  have l: "[k..retries c] = k # [k + 1..retries c]"
    using assms(1) by (simp add: upto.simps)
  have r: "retry_loop c e t [k..retries c] s = on_valid c e t s1"
    using assms(2,3) retry_loop_valid[of e s c t s1 k "[k + 1..retries c]"] l by simp
  note b = build_and_checkD[OF assms(3)]
  have g: "\<exists>s'. retry_loop c e t [k..retries c] s = (Inr (), s') \<and>
             idxcount_success s' = idxcount_success s + 1 \<and>
             idxcount_retries s' = idxcount_retries s \<and>
             sent (trace s') =
               sent (trace s) @
               (if dryrun c then
                  [idx_valid_query (idx_name_new t), idx_size_query (idx_name t)]
                else
                  [drop_stale_stmt (idx_name_new t), py_str (idx_create_new t),
                   idx_valid_query (idx_name_new t),
                   idx_size_query (idx_name t), idx_size_query (idx_name_new t)] @
                  swap_stmts t) \<and>
             printed (trace s') =
               printed (trace s) @
               (if dryrun c then
                  [drop_stale_stmt (idx_name_new t), py_str (idx_create_new t),
                   idx_size_query (idx_name_new t)] @
                  swap_stmts t
                else [])"
    if sb: "db e (execs s1) (idx_size_query (idx_name t)) = Rows ((vb # rb) # rsb)"
      and nb: "py_number vb"
      and sa: "\<not> dryrun c \<longrightarrow>
             (\<exists>va ra rsa. db e (execs s1 + 1) (idx_size_query (idx_name_new t)) =
                             Rows ((va # ra) # rsa) \<and> py_number va)"
      and ok: "\<forall>n q cls. execs s1 \<le> n \<longrightarrow> db e n q \<noteq> OtherFailure cls"
  proof -
    obtain s' where v: "on_valid c e t s1 = (Inr (), s')"
      using sb nb sa ok by (rule on_valid_ok)
    note f = on_validD[OF v]
    have cn: "idxcount_success s' = idxcount_success s + 1 \<and>
              idxcount_retries s' = idxcount_retries s"
      using b f by (simp add: counters_def)
    have se: "sent (trace s') =
               sent (trace s) @
               (if dryrun c then
                  [idx_valid_query (idx_name_new t), idx_size_query (idx_name t)]
                else
                  [drop_stale_stmt (idx_name_new t), py_str (idx_create_new t),
                   idx_valid_query (idx_name_new t),
                   idx_size_query (idx_name t), idx_size_query (idx_name_new t)] @
                  swap_stmts t)"
      using b f by simp
    have pr: "printed (trace s') =
               printed (trace s) @
               (if dryrun c then
                  [drop_stale_stmt (idx_name_new t), py_str (idx_create_new t),
                   idx_size_query (idx_name_new t)] @
                  swap_stmts t
                else [])"
      using b f by simp
    show ?thesis using r v cn se pr by (intro exI[of _ s']) simp
  qed
  show ?thesis using r g by blast
qed

theorem valid_attempt_swaps_once_witness:
  "retry_loop example_config valid_env example_locals [1..retries example_config] initial =
     on_valid example_config valid_env example_locals
       (snd (build_and_check example_config valid_env example_locals (initial\<lparr>reads := 1\<rparr>)))
   \<and> fst (retry_loop example_config valid_env example_locals [1..retries example_config] initial) =
       Inr ()
   \<and> idxcount_success (snd (retry_loop example_config valid_env example_locals
                               [1..retries example_config] initial)) = 1
   \<and> idxcount_retries (snd (retry_loop example_config valid_env example_locals
                               [1..retries example_config] initial)) = 0
   \<and> sent (trace (snd (retry_loop example_config valid_env example_locals
                               [1..retries example_config] initial))) =
       [drop_stale_stmt ''idx_a_new'', ''CREATE INDEX CONCURRENTLY idx_a_new ON tab (a)'',
        idx_valid_query ''idx_a_new'', idx_size_query ''idx_a'', idx_size_query ''idx_a_new'',
        analyse_stmt ''tab'', drop_stmt ''idx_a'', rename_stmt ''idx_a_new'' ''idx_a'',
        analyse_stmt ''tab'']
   \<and> printed (trace (snd (retry_loop example_config valid_env example_locals
                               [1..retries example_config] initial))) = []"
proof -
  let ?c = example_config and ?e = valid_env and ?t = example_locals
  let ?s1 = "snd (build_and_check ?c ?e ?t (initial\<lparr>reads := 1\<rparr>))"
  have k: "1 \<le> retries ?c" by (simp add: example_config_def)
  have clk: "clock ?e (reads initial) < halt_time ?c"
    by (simp add: example_config_def valid_env_def)
  have b: "fst (build_and_check ?c ?e ?t (initial\<lparr>reads := 1\<rparr>)) = Inr True" "execs ?s1 = 3"
    by (simp_all add: run_defs example_config_def valid_env_def example_locals_def initial_def)
  have 1: "build_and_check ?c ?e ?t (initial\<lparr>reads := reads initial + 1\<rparr>) = (Inr True, ?s1)"
    using b(1) by (simp add: prod_eq_iff initial_def)
  have 2: "db ?e (execs ?s1) (idx_size_query (idx_name ?t)) = Rows ((VInt 8192 # []) # [])"
    unfolding b(2) by (simp add: valid_env_def)
  have 3: "py_number (VInt 8192)" by simp
  have 4: "\<not> dryrun ?c \<longrightarrow>
         (\<exists>va ra rsa. db ?e (execs ?s1 + 1) (idx_size_query (idx_name_new ?t)) =
                         Rows ((va # ra) # rsa) \<and> py_number va)"
    unfolding b(2) by (simp add: valid_env_def)
  have 5: "\<forall>n q cls. execs ?s1 \<le> n \<longrightarrow> db ?e n q \<noteq> OtherFailure cls"
    by (simp add: valid_env_def)
  from valid_attempt_swaps_once [OF k clk 1, where vb = "VInt 8192" and rb = "[]" and rsb = "[]"]
       2 3 4 5
  have "retry_loop ?c ?e ?t [1..retries ?c] initial = on_valid ?c ?e ?t ?s1"
    and "\<exists>s'. retry_loop ?c ?e ?t [1..retries ?c] initial = (Inr (), s') \<and>
             idxcount_success s' = idxcount_success initial + 1 \<and>
             idxcount_retries s' = idxcount_retries initial \<and>
             sent (trace s') =
               sent (trace initial) @
               (if dryrun ?c then
                  [idx_valid_query (idx_name_new ?t), idx_size_query (idx_name ?t)]
                else
                  [drop_stale_stmt (idx_name_new ?t), py_str (idx_create_new ?t),
                   idx_valid_query (idx_name_new ?t),
                   idx_size_query (idx_name ?t), idx_size_query (idx_name_new ?t)] @
                  swap_stmts ?t) \<and>
             printed (trace s') =
               printed (trace initial) @
               (if dryrun ?c then
                  [drop_stale_stmt (idx_name_new ?t), py_str (idx_create_new ?t),
                   idx_size_query (idx_name_new ?t)] @
                  swap_stmts ?t
                else [])"
    by blast+
  then show ?thesis
    by (auto simp: example_config_def example_locals_def swap_stmts_def initial_def)
qed

text \<open>
  C2 as stated fails. With a retry count of 2 the validity check of attempt 1 gives true.
  First input: the lookup of the size before is answered with a database error, the run
  ends with \<^verbatim>\<open>ProgrammingError\<close>, no statement of the swap is sent and the success
  counter stays 0. Second input: the drop of the original index fails with an
  unclassified error, the run ends there, without the rename and without a success.
\<close>

theorem valid_attempt_without_success:
  "1 \<le> retries example_config
   \<and> fst (build_and_check example_config sizeless_env example_locals (initial\<lparr>reads := 1\<rparr>)) =
       Inr True
   \<and> fst (retry_loop example_config sizeless_env example_locals [1..retries example_config]
            initial) = Inl ProgrammingError
   \<and> idxcount_success (snd (retry_loop example_config sizeless_env example_locals
                               [1..retries example_config] initial)) = 0
   \<and> sent (trace (snd (retry_loop example_config sizeless_env example_locals
                               [1..retries example_config] initial))) =
       [drop_stale_stmt ''idx_a_new'', ''CREATE INDEX CONCURRENTLY idx_a_new ON tab (a)'',
        idx_valid_query ''idx_a_new'', idx_size_query ''idx_a'']
   \<and> fst (build_and_check example_config aborting_env example_locals (initial\<lparr>reads := 1\<rparr>)) =
       Inr True
   \<and> fst (retry_loop example_config aborting_env example_locals [1..retries example_config]
            initial) = Inl (Unexpected ''SystemExit'')
   \<and> idxcount_success (snd (retry_loop example_config aborting_env example_locals
                               [1..retries example_config] initial)) = 0
   \<and> sent (trace (snd (retry_loop example_config aborting_env example_locals
                               [1..retries example_config] initial))) =
       [drop_stale_stmt ''idx_a_new'', ''CREATE INDEX CONCURRENTLY idx_a_new ON tab (a)'',
        idx_valid_query ''idx_a_new'', idx_size_query ''idx_a'', idx_size_query ''idx_a_new'',
        analyse_stmt ''tab'', drop_stmt ''idx_a'']"
  by (simp add: run_defs upto.simps example_config_def sizeless_env_def aborting_env_def
        example_locals_def initial_def)

text \<open>
  C3, as the code has it. Take an index whose validity check returns a false value on
  every attempt (so the run is not a dry run), and the loop over the attempt numbers
  \<open>k\<close> up to the retry count. Whatever else the server answers and however the loop
  ends, every statement the loop issues belongs to rounds of defensive drop, build,
  validity check and non-blocking drop of the replacement: no statement of the swap is
  issued. When moreover the build text is a string and no statement fails with an
  unclassified error, the loop returns normally after \<open>m\<close> rounds (all of them when the
  deadline is never reached), each round is sent to the server in full, the success
  counter is unchanged and the retry counter has grown by \<open>m\<close>. So every invalid
  attempt, the last one included, ends with the drop of the replacement, and when the
  server carries those drops out, no index is left under the replacement's name after the
  loop.
\<close>

theorem exhausted_retries_drop_every_replacement:
  assumes "\<not> dryrun c"
    and "\<forall>n. \<exists>r rs. db e n (idx_valid_query (idx_name_new t)) = Rows (r # rs) \<and>
                        1 < length r \<and> \<not> truthy (r ! 1)"
  shows "(\<exists>m\<le>length [k..retries c].
            prefix (issued (trace (snd (retry_loop c e t [k..retries c] s))))
              (issued (trace s) @
               concat (replicate m [drop_stale_stmt (idx_name_new t), py_str (idx_create_new t),
                                    idx_valid_query (idx_name_new t),
                                    drop_stmt (idx_name_new t)])))
       \<and> (idx_create_new t = VStr b \<and> (\<forall>n q cls. db e n q \<noteq> OtherFailure cls) \<longrightarrow>
            (\<exists>m s'. retry_loop c e t [k..retries c] s = (Inr (), s') \<and>
               m \<le> length [k..retries c] \<and>
               ((\<forall>n. clock e n < halt_time c) \<longrightarrow> m = length [k..retries c]) \<and>
               sent (trace s') =
                 sent (trace s) @
                 concat (replicate m [drop_stale_stmt (idx_name_new t), b,
                                      idx_valid_query (idx_name_new t),
                                      drop_stmt (idx_name_new t)]) \<and>
               idxcount_success s' = idxcount_success s \<and>
               idxcount_retries s' = idxcount_retries s + int m \<and>
               ((\<forall>n. db e n (drop_stmt (idx_name_new t)) = Done \<or>
                     (\<exists>rs. db e n (drop_stmt (idx_name_new t)) = Rows rs)) \<and> 0 < m \<longrightarrow>
                  \<not> replacement_present t p (trace s'))))"
proof -
  have a: "\<exists>m\<le>length [k..retries c].
            prefix (issued (trace (snd (retry_loop c e t [k..retries c] s))))
              (issued (trace s) @
               concat (replicate m [drop_stale_stmt (idx_name_new t), py_str (idx_create_new t),
                                    idx_valid_query (idx_name_new t),
                                    drop_stmt (idx_name_new t)]))"
    using assms by (rule exhausted_loop_issues_rounds)
  have b: "\<exists>m s'. retry_loop c e t [k..retries c] s = (Inr (), s') \<and>
               m \<le> length [k..retries c] \<and>
               ((\<forall>n. clock e n < halt_time c) \<longrightarrow> m = length [k..retries c]) \<and>
               sent (trace s') =
                 sent (trace s) @
                 concat (replicate m [drop_stale_stmt (idx_name_new t), b,
                                      idx_valid_query (idx_name_new t),
                                      drop_stmt (idx_name_new t)]) \<and>
               idxcount_success s' = idxcount_success s \<and>
               idxcount_retries s' = idxcount_retries s + int m \<and>
               ((\<forall>n. db e n (drop_stmt (idx_name_new t)) = Done \<or>
                     (\<exists>rs. db e n (drop_stmt (idx_name_new t)) = Rows rs)) \<and> 0 < m \<longrightarrow>
                  \<not> replacement_present t p (trace s'))"
    if str: "idx_create_new t = VStr b" and ok: "\<forall>n q cls. db e n q \<noteq> OtherFailure cls"
  proof -
    from exhausted_loop_sent[OF assms str ok, of "[k..retries c]" s]
    obtain m s' where l:
      "retry_loop c e t [k..retries c] s = (Inr (), s')" "m \<le> length [k..retries c]"
      "(\<forall>n. clock e n < halt_time c) \<longrightarrow> m = length [k..retries c]"
      "sent (trace s') =
         sent (trace s) @
         concat (replicate m [drop_stale_stmt (idx_name_new t), b,
                              idx_valid_query (idx_name_new t), drop_stmt (idx_name_new t)])"
      "idxcount_success s' = idxcount_success s"
      "idxcount_retries s' = idxcount_retries s + int m"
      "(\<forall>n. db e n (drop_stmt (idx_name_new t)) = Done \<or>
            (\<exists>rs. db e n (drop_stmt (idx_name_new t)) = Rows rs)) \<and> 0 < m \<longrightarrow>
         (\<exists>xs sl. trace s' = xs @ Executed (drop_stmt (idx_name_new t)) # sl \<and>
                  (\<forall>ev\<in>set sl. \<exists>n. ev = Slept n))"
      by blast
    have "\<not> replacement_present t p (trace s')"
      if "(\<forall>n. db e n (drop_stmt (idx_name_new t)) = Done \<or>
            (\<exists>rs. db e n (drop_stmt (idx_name_new t)) = Rows rs)) \<and> 0 < m"
    proof -
      from l(7) that obtain xs sl where
        "trace s' = xs @ Executed (drop_stmt (idx_name_new t)) # sl"
        "\<forall>ev\<in>set sl. \<exists>n. ev = Slept n"
        by blast
      then show ?thesis using replacement_present_after_drop[of sl t p xs] by simp
    qed
    then show ?thesis using l(1-6) by blast
  qed
  show ?thesis using a b by blast
qed

theorem exhausted_retries_drop_every_replacement_witness:
  "fst (retry_loop example_config invalid_env example_locals [1..retries example_config] initial) = Inr ()
   \<and> sent (trace (snd (retry_loop example_config invalid_env example_locals
                               [1..retries example_config] initial))) =
       [drop_stale_stmt ''idx_a_new'', ''CREATE INDEX CONCURRENTLY idx_a_new ON tab (a)'',
        idx_valid_query ''idx_a_new'', drop_stmt ''idx_a_new'',
        drop_stale_stmt ''idx_a_new'', ''CREATE INDEX CONCURRENTLY idx_a_new ON tab (a)'',
        idx_valid_query ''idx_a_new'', drop_stmt ''idx_a_new'']
   \<and> idxcount_success (snd (retry_loop example_config invalid_env example_locals
                               [1..retries example_config] initial)) = 0
   \<and> idxcount_retries (snd (retry_loop example_config invalid_env example_locals
                               [1..retries example_config] initial)) = 2
   \<and> \<not> replacement_present example_locals True
         (trace (snd (retry_loop example_config invalid_env example_locals
                               [1..retries example_config] initial)))"
proof -
  let ?b = "''CREATE INDEX CONCURRENTLY idx_a_new ON tab (a)''"
  let ?drop = "drop_stmt (idx_name_new example_locals)"
  have 1: "\<not> dryrun example_config" by (simp add: example_config_def)
  have 2: "idx_create_new example_locals = VStr ?b" by (simp add: example_locals_def)
  have 3: "\<forall>n. \<exists>r rs. db invalid_env n (idx_valid_query (idx_name_new example_locals)) = Rows (r # rs) \<and>
                        1 < length r \<and> \<not> truthy (r ! 1)"
    by (simp add: invalid_env_def)
  have 4: "\<forall>n q cls. db invalid_env n q \<noteq> OtherFailure cls"
    by (simp add: invalid_env_def)
  have 5: "\<forall>n. clock invalid_env n < halt_time example_config"
    by (simp add: invalid_env_def example_config_def)
  have 6: "length [1..retries example_config] = 2"
    by (simp add: example_config_def upto.simps)
  have 7: "\<forall>n. db invalid_env n ?drop = Done \<or> (\<exists>rs. db invalid_env n ?drop = Rows rs)"
    by (simp add: invalid_env_def)
  from exhausted_retries_drop_every_replacement [OF 1 3, of 1 initial ?b True] 2 4
  obtain m s' where r:
    "retry_loop example_config invalid_env example_locals [1..retries example_config] initial = (Inr (), s')"
    "(\<forall>n. clock invalid_env n < halt_time example_config) \<longrightarrow> m = length [1..retries example_config]"
    "sent (trace s') =
       sent (trace initial) @
       concat (replicate m [drop_stale_stmt (idx_name_new example_locals), ?b,
                            idx_valid_query (idx_name_new example_locals), ?drop])"
    "idxcount_success s' = idxcount_success initial"
    "idxcount_retries s' = idxcount_retries initial + int m"
    "(\<forall>n. db invalid_env n ?drop = Done \<or> (\<exists>rs. db invalid_env n ?drop = Rows rs)) \<and> 0 < m \<longrightarrow>
       \<not> replacement_present example_locals True (trace s')"
    by blast
  have m: "m = 2" using r(2) 5 6 by simp
  have "\<not> replacement_present example_locals True (trace s')"
    using r(6) 7 m by simp
  then show ?thesis
    using r(1,3,4,5) unfolding m
    by (simp add: example_locals_def initial_def numeral_2_eq_2)
qed

text \<open>
  C3 as stated fails: with a retry count of 2, an index that is found and a false
  validity check on both attempts, \<^verbatim>\<open>process_index\<close> returns normally after two
  rounds without a success, the last statement it sends is the drop of the
  replacement, every statement is carried out, and no index is left under the
  replacement's name, where the claim expects exactly one.
\<close>

theorem exhausted_retries_leave_no_replacement:
  "fst (process_index example_config exhausting_env (VStr ''idx_a'') initial) = Inr ()
   \<and> sent (trace (snd (process_index example_config exhausting_env (VStr ''idx_a'') initial))) =
       [idx_info_query ''idx_a'', idx_create_new_query ''idx_a'',
        drop_stale_stmt ''idx_a_new'', ''CREATE INDEX CONCURRENTLY idx_a_new ON tab (a)'',
        idx_valid_query ''idx_a_new'', drop_stmt ''idx_a_new'',
        drop_stale_stmt ''idx_a_new'', ''CREATE INDEX CONCURRENTLY idx_a_new ON tab (a)'',
        idx_valid_query ''idx_a_new'', drop_stmt ''idx_a_new'']
   \<and> idxcount_success (snd (process_index example_config exhausting_env (VStr ''idx_a'') initial)) = 0
   \<and> idxcount_retries (snd (process_index example_config exhausting_env (VStr ''idx_a'') initial)) = 2
   \<and> \<not> replacement_present example_locals False
         (trace (snd (process_index example_config exhausting_env (VStr ''idx_a'') initial)))"
  by (simp add: index_defs run_defs example_config_def exhausting_env_def example_locals_def
        initial_def effect_def
        drop_stmt_def drop_stale_stmt_def rename_stmt_def idx_valid_query_def
        idx_info_query_def idx_create_new_query_def quoted_def)

text \<open>
  C4. When the clock has reached the deadline, \<^verbatim>\<open>process_index\<close>, \<^verbatim>\<open>process_table\<close>
  and a round of the retry loop only read the clock and set \<^verbatim>\<open>time_exit\<close>: no counter
  changes and no statement is issued. A round that starts before the deadline does not
  depend on what the clock shows later: the loop reads the clock at its top only, so the
  attempt under way runs as if the deadline were never reached.
\<close>

theorem deadline_checked_at_the_top:
  "(halt_time c \<le> clock e (reads s) \<longrightarrow>
      process_index c e name s = (Inr (), s\<lparr>reads := reads s + 1, time_exit := True\<rparr>) \<and>
      process_table c e tab s = (Inr (), s\<lparr>reads := reads s + 1, time_exit := True\<rparr>) \<and>
      retry_loop c e t (k # rest) s = (Inr (), s\<lparr>reads := reads s + 1, time_exit := True\<rparr>))
   \<and> (clock e (reads s) < halt_time c \<and> f (reads s) = clock e (reads s) \<longrightarrow>
        retry_loop c (e\<lparr>clock := f\<rparr>) t [k] s = retry_loop c e t [k] s)"
  by (simp add: process_index_def process_table_def time_now_def round_clock
           split: prod.splits sum.splits)

theorem deadline_checked_at_the_top_witness:
  "process_index example_config late_env (VStr ''idx_a'') initial =
     (Inr (), initial\<lparr>reads := 1, time_exit := True\<rparr>)
   \<and> process_table example_config late_env ''tab'' initial =
     (Inr (), initial\<lparr>reads := 1, time_exit := True\<rparr>)
   \<and> retry_loop example_config late_env example_locals [1, 2] initial =
     (Inr (), initial\<lparr>reads := 1, time_exit := True\<rparr>)
   \<and> retry_loop example_config (valid_env\<lparr>clock := (\<lambda>n. if n = 0 then 0 else 9999)\<rparr>)
         example_locals [1] initial =
       retry_loop example_config valid_env example_locals [1] initial"
  using deadline_checked_at_the_top
          [where c = example_config and e = late_env and s = initial and name = "VStr ''idx_a''"
             and tab = "''tab''" and t = example_locals and k = 1 and rest = "[2]"]
        deadline_checked_at_the_top
          [where c = example_config and e = valid_env and s = initial and t = example_locals
             and k = 1 and f = "\<lambda>n. if n = 0 then 0 else 9999"]
  by (simp add: example_config_def late_env_def valid_env_def initial_def)

text \<open>
  C5. Processing a name of the ignore list returns normally without a statement sent or
  printed; when the deadline has not passed (the index is started at all), the ignored
  counter and the index counter both grow by one.
\<close>

theorem ignored_index_untouched:
  assumes "n \<in> set (ignorelist c)"
  shows "fst (process_index c e (VStr n) s) = Inr () \<and>
         trace (snd (process_index c e (VStr n) s)) = trace s \<and>
         execs (snd (process_index c e (VStr n) s)) = execs s \<and>
         (clock e (reads s) < halt_time c \<longrightarrow>
            idxcount_ignored (snd (process_index c e (VStr n) s)) = idxcount_ignored s + 1 \<and>
            idxcount (snd (process_index c e (VStr n) s)) = idxcount s + 1)"
  using assms by (simp add: process_index_def time_now_def)

theorem ignored_index_untouched_witness:
  "fst (process_index example_config valid_env (VStr ''idx_users_email'') initial) = Inr ()
   \<and> trace (snd (process_index example_config valid_env (VStr ''idx_users_email'') initial)) = []
   \<and> execs (snd (process_index example_config valid_env (VStr ''idx_users_email'') initial)) = 0
   \<and> idxcount_ignored (snd (process_index example_config valid_env (VStr ''idx_users_email'') initial)) = 1
   \<and> idxcount (snd (process_index example_config valid_env (VStr ''idx_users_email'') initial)) = 1"
  using ignored_index_untouched
          [where c = example_config and e = valid_env and s = initial and n = "''idx_users_email''"]
  by (simp add: example_config_def valid_env_def initial_def)



text \<open>
  C7. In dry-run mode, for an index that is found and processed to the end within the
  deadline: the statements sent to the server are exactly the four lookups (resolution,
  definition, validity, size before); the timeout setting, the defensive drop, the
  build, the size-after query and every statement of the swap are printed instead; the
  index counts as a success whatever the validity query returned; and the two totals grow
  by the same amount, the size after being the size before.
\<close>

theorem dry_run_prints_mutations:
  assumes dr: "dryrun c"
    and clk: "\<forall>n. clock e n < halt_time c"
    and ni: "\<not> py_in name (ignorelist c)"
    and rt: "0 < retries c"
    and one: "db e (execs s) (idx_info_query (py_str name)) = Rows [r]"
    and ret: "process_index c e name s = (Inr (), s')"
  shows "sent (trace s') =
           sent (trace s) @
           [idx_info_query (py_str name), idx_create_new_query (py_str name),
            idx_valid_query (py_str name @ ''_new''), idx_size_query (py_str name)] \<and>
         (\<exists>def_new.
            printed (trace s') =
              printed (trace s) @
              (if enforcetime c
               then [set_timeout_stmt (py_int (halt_time c - clock e (reads s + 1)) + 30)]
               else []) @
              [drop_stale_stmt (py_str name @ ''_new''), py_str def_new,
               idx_size_query (py_str name @ ''_new'')] @
              swap_stmts \<lparr>idx_name = py_str name, idx_name_new = py_str name @ ''_new'',
                           table = py_str (r ! 0), is_pk = truthy (r ! 1),
                           idx_create_new = def_new\<rparr>) \<and>
         idxcount_success s' = idxcount_success s + 1 \<and>
         total_idx_size_after s' - total_idx_size_after s =
           total_idx_size_before s' - total_idx_size_before s"
proof -
  let ?s1 = "s\<lparr>reads := reads s + 1, idxcount := idxcount s + 1\<rparr>"
  let ?n = "py_str name"
  let ?sa = "snd (set_timeout c e ?s1)"
  have p: "process_index c e name s =
     seq (set_timeout c e) (\<lambda>_.
           seq (dbquery c e (idx_info_query (py_str name)) True) (\<lambda>_.
           seq fetchall (\<lambda>idx_info.
           if length idx_info \<noteq> 1 then
             (\<lambda>s2. (Inr (), s2\<lparr>idxcount_notfound := idxcount_notfound s2 + 1\<rparr>))
           else
             seq (lift (cell idx_info 0)) (\<lambda>tab.
             seq (lift (cell idx_info 1)) (\<lambda>pk.
             seq (lift (py_concat name ''_new'')) (\<lambda>new.
             seq (fetch_definition c e name) (\<lambda>def_new.
             retry_loop c e
               \<lparr>idx_name = py_str name, idx_name_new = new, table = py_str tab,
                is_pk = truthy pk, idx_create_new = def_new\<rparr>
               [1..retries c]))))))) ?s1"
    using clk[rule_format, of "reads s"] ni by (simp add: process_index_def time_now_def)
  from ret[unfolded p] obtain sa sb idx_info sc where
    st: "set_timeout c e ?s1 = (Inr (), sa)" and
    q: "dbquery c e (idx_info_query ?n) True sa = (Inr (), sb)" and
    fa: "fetchall sb = (Inr idx_info, sc)" and
    rest: "(if length idx_info \<noteq> 1 then
             (\<lambda>s2. (Inr (), s2\<lparr>idxcount_notfound := idxcount_notfound s2 + 1\<rparr>))
           else
             seq (lift (cell idx_info 0)) (\<lambda>tab.
             seq (lift (cell idx_info 1)) (\<lambda>pk.
             seq (lift (py_concat name ''_new'')) (\<lambda>new.
             seq (fetch_definition c e name) (\<lambda>def_new.
             retry_loop c e
               \<lparr>idx_name = py_str name, idx_name_new = new, table = py_str tab,
                is_pk = truthy pk, idx_create_new = def_new\<rparr>
               [1..retries c]))))) sc = (Inr (), s')"
    by (auto simp: seq_Inr)
  have sa: "execs sa = execs s" "sent (trace sa) = sent (trace s)"
    "printed (trace sa) = printed (trace s) @
       (if enforcetime c
        then [set_timeout_stmt (py_int (halt_time c - clock e (reads s + 1)) + 30)] else [])"
    "idxcount_success sa = idxcount_success s" "totals sa = totals s"
    using st set_timeout_dryrun[OF dr, of e ?s1] by (auto simp: totals_def split: if_splits)
  have "cursor sb = Some [r]"
    using dbquery_rows[of c True e sa "idx_info_query ?n" "[r]"] one sa(1) q by simp
  then have ii: "idx_info = [r]"
    using fetchallD[OF fa] by simp
  from rest obtain tab pk new def_new sd where
    c0: "cell [r] 0 = Inr tab" and c1: "cell [r] 1 = Inr pk" and
    nw: "py_concat name ''_new'' = Inr new" and
    fd: "fetch_definition c e name sc = (Inr def_new, sd)" and
    rl: "retry_loop c e
               \<lparr>idx_name = ?n, idx_name_new = new, table = py_str tab,
                is_pk = truthy pk, idx_create_new = def_new\<rparr>
               [1..retries c] sd = (Inr (), s')"
    unfolding ii by (auto simp: seq_Inr lift_Inr)
  let ?t = "\<lparr>idx_name = ?n, idx_name_new = new, table = py_str tab,
                is_pk = truthy pk, idx_create_new = def_new\<rparr>"
  have tab: "tab = r ! 0" and pk: "pk = r ! 1"
    using c0 c1 by (auto simp: cell_def split: if_splits)
  have new: "new = ?n @ ''_new''"
    using nw by (cases name) auto
  have l: "[1..retries c] = 1 # [2..retries c]"
    using rt by (simp add: upto.simps)
  have "clock e (reads sd) < halt_time c" using clk by simp
  with rl obtain se where
    bc: "build_and_check c e ?t (sd\<lparr>reads := reads sd + 1\<rparr>) = (Inr True, se)" and
    ov: "on_valid c e ?t se = (Inr (), s')"
    unfolding l using dr by (elim retry_loop_dryrun[rotated 2]) auto
  note f = dbqueryD[OF q] fetch_definitionD[OF fd] build_and_checkD[OF bc] on_validD[OF ov]
  have sb: "sent (trace sc) = sent (trace s) @ [idx_info_query ?n]"
    "printed (trace sc) = printed (trace sa)"
    "counters sc = counters sa" "totals sc = totals sa"
    using f(1) sa(2) fetchallD[OF fa] by simp_all
  have sd0: "trace (sd\<lparr>reads := reads sd + 1\<rparr>) = trace sd"
    "idxcount_success (sd\<lparr>reads := reads sd + 1\<rparr>) = idxcount_success sd"
    "totals (sd\<lparr>reads := reads sd + 1\<rparr>) = totals sd"
    by (simp_all add: totals_def)
  have 1: "sent (trace s') =
           sent (trace s) @
           [idx_info_query ?n, idx_create_new_query ?n,
            idx_valid_query (?n @ ''_new''), idx_size_query ?n]"
    using f(2-4) sb(1) sd0(1) dr new by simp
  have 2: "printed (trace s') =
              printed (trace s) @
              (if enforcetime c
               then [set_timeout_stmt (py_int (halt_time c - clock e (reads s + 1)) + 30)]
               else []) @
              [drop_stale_stmt (?n @ ''_new''), py_str def_new,
               idx_size_query (?n @ ''_new'')] @
              swap_stmts \<lparr>idx_name = ?n, idx_name_new = ?n @ ''_new'',
                           table = py_str (r ! 0), is_pk = truthy (r ! 1),
                           idx_create_new = def_new\<rparr>"
    using f(2-4) sb(2) sa(3) sd0(1) dr new tab pk by simp
  have 3: "idxcount_success s' = idxcount_success s + 1"
    using f(2-4) sb(3) sa(4) sd0(2) by (simp add: counters_def)
  have tot: "totals se = totals s"
    using f(2-3) sb(4) sa(5) sd0(3) by simp
  have 4: "total_idx_size_after s' - total_idx_size_after s =
           total_idx_size_before s' - total_idx_size_before s"
    using f(4) dr tot by (simp add: totals_def)
  show ?thesis using 1 2 3 4 by blast
qed

theorem dry_run_prints_mutations_witness:
  "sent (trace (snd (process_index (example_config\<lparr>dryrun := True\<rparr>) dry_env (VStr ''idx_a'') initial))) =
     [idx_info_query ''idx_a'', idx_create_new_query ''idx_a'',
      idx_valid_query ''idx_a_new'', idx_size_query ''idx_a'']
   \<and> idxcount_success (snd (process_index (example_config\<lparr>dryrun := True\<rparr>) dry_env
                              (VStr ''idx_a'') initial)) = 1
   \<and> total_idx_size_after (snd (process_index (example_config\<lparr>dryrun := True\<rparr>) dry_env
                              (VStr ''idx_a'') initial)) =
     total_idx_size_before (snd (process_index (example_config\<lparr>dryrun := True\<rparr>) dry_env
                              (VStr ''idx_a'') initial))"
proof -
  let ?c = "example_config\<lparr>dryrun := True\<rparr>"
  let ?p = "process_index ?c dry_env (VStr ''idx_a'') initial"
  have 1: "dryrun ?c" by simp
  have 2: "\<forall>n. clock dry_env n < halt_time ?c" by (simp add: dry_env_def example_config_def)
  have 3: "\<not> py_in (VStr ''idx_a'') (ignorelist ?c)" by (simp add: example_config_def)
  have 4: "0 < retries ?c" by (simp add: example_config_def)
  have 5: "db dry_env (execs initial) (idx_info_query (py_str (VStr ''idx_a''))) =
             Rows [[VStr ''tab'', VBool True]]"
    by (simp add: dry_env_def initial_def)
  have "fst ?p = Inr ()"
    by (simp add: index_defs run_defs example_config_def dry_env_def initial_def)
  then have 6: "?p = (Inr (), snd ?p)" by (simp add: prod_eq_iff)
  show ?thesis
    using dry_run_prints_mutations [OF 1 2 3 4 5 6]
    by (simp add: initial_def)
qed

text \<open>
  C8. A statement that \<^verbatim>\<open>dbquery\<close> sends to the server: when the server cancels it,
  or raises another database error, \<^verbatim>\<open>dbquery\<close> reports the condition and returns
  normally, the globals untouched and the cursor without a result set; any other
  failure leaves \<^verbatim>\<open>dbquery\<close> as an exception.
\<close>

theorem dbquery_absorbs_database_errors:
  assumes "\<not> dryrun c \<or> ondryrun"
  shows "(db e (execs s) q = QueryCanceled \<longrightarrow>
           dbquery c e q ondryrun s =
             (Inr (), s\<lparr>trace := trace s @ [Executed q, Reported ''NOTE   '' ''Query cancelled due to enforced timeout''],
                         execs := execs s + 1, cursor := None\<rparr>))
       \<and> (db e (execs s) q = DbError m \<longrightarrow>
           dbquery c e q ondryrun s =
             (Inr (), s\<lparr>trace := trace s @ [Executed q, Reported ''ERROR  '' (''DB query error: '' @ m)],
                         execs := execs s + 1, cursor := None\<rparr>))
       \<and> (db e (execs s) q = OtherFailure cls \<longrightarrow>
           fst (dbquery c e q ondryrun s) = Inl (Unexpected cls))"
  using assms by (auto simp: dbquery_def execute_def report_def Let_def)

theorem dbquery_absorbs_database_errors_witness:
  "dbquery example_config faulty_env ''COMMIT'' False initial =
     (Inr (), initial\<lparr>trace := [Executed ''COMMIT'', Reported ''NOTE   '' ''Query cancelled due to enforced timeout''],
                       execs := 1, cursor := None\<rparr>)
   \<and> dbquery example_config faulty_env ''COMMIT'' False (initial\<lparr>execs := 1\<rparr>) =
     (Inr (), initial\<lparr>trace := [Executed ''COMMIT'', Reported ''ERROR  '' ''DB query error: deadlock detected''],
                       execs := 2, cursor := None\<rparr>)
   \<and> fst (dbquery example_config faulty_env ''COMMIT'' False (initial\<lparr>execs := 2\<rparr>)) =
       Inl (Unexpected ''KeyboardInterrupt'')"
  using dbquery_absorbs_database_errors
          [where c = example_config and ondryrun = False and e = faulty_env and s = initial
             and q = "''COMMIT''" and m = "''deadlock detected''" and cls = "''KeyboardInterrupt''"]
        dbquery_absorbs_database_errors
          [where c = example_config and ondryrun = False and e = faulty_env
             and s = "initial\<lparr>execs := 1\<rparr>"
             and q = "''COMMIT''" and m = "''deadlock detected''" and cls = "''KeyboardInterrupt''"]
        dbquery_absorbs_database_errors
          [where c = example_config and ondryrun = False and e = faulty_env
             and s = "initial\<lparr>execs := 2\<rparr>"
             and q = "''COMMIT''" and m = "''deadlock detected''" and cls = "''KeyboardInterrupt''"]
  by (simp add: example_config_def faulty_env_def initial_def)

text \<open>
  C9. Outside dry-run mode, a round whose defensive drop and build return (a database
  error of the build is absorbed) and whose validity query yields no row ends with
  \<^verbatim>\<open>IndexError\<close>: the first row is read unguarded. The definition fetch and the
  size-before lookup raise \<^verbatim>\<open>IndexError\<close> on an empty result in the same way, and an
  \<^verbatim>\<open>IndexError\<close> of \<^verbatim>\<open>process_index\<close> ends the whole run.
\<close>

theorem empty_result_raises_index_error:
  assumes "\<not> dryrun c"
  shows "(clock e (reads s) < halt_time c \<and> idx_create_new t = VStr b \<and>
          (\<forall>cls. db e (execs s) (drop_stale_stmt (idx_name_new t)) \<noteq> OtherFailure cls) \<and>
          (\<forall>cls. db e (execs s + 1) b \<noteq> OtherFailure cls) \<and>
          db e (execs s + 2) (idx_valid_query (idx_name_new t)) = Rows [] \<longrightarrow>
            fst (retry_loop c e t (k # rest) s) = Inl IndexError)
       \<and> (db e (execs s) (idx_create_new_query (py_str name)) = Rows [] \<longrightarrow>
            fst (fetch_definition c e name s) = Inl IndexError)
       \<and> (db e (execs s) (idx_size_query (idx_name t)) = Rows [] \<longrightarrow>
            fst (read_size_before c e t s) = Inl IndexError)
       \<and> (fst (process_index c e (VStr i) s) = Inl IndexError \<longrightarrow>
            fst (run c e (i # others) tabs s) = Inl IndexError)"
  using assms retry_loop_empty_validity[of c e s t b k rest]
    fetch_definition_empty[of e s name c] read_size_before_empty[of e s t c]
    run_propagates[of c e i s IndexError others tabs]
  by blast

theorem empty_result_raises_index_error_witness:
  "fst (retry_loop example_config broken_env example_locals [1, 2] (initial\<lparr>execs := 2\<rparr>)) = Inl IndexError
   \<and> fst (fetch_definition example_config broken_env (VStr ''idx_a'') (initial\<lparr>execs := 4\<rparr>)) = Inl IndexError
   \<and> fst (read_size_before example_config broken_env example_locals (initial\<lparr>execs := 4\<rparr>)) = Inl IndexError
   \<and> fst (run example_config broken_env [''idx_a'', ''idx_b''] [''tab''] initial) = Inl IndexError"
proof -
  have nd: "\<not> dryrun example_config" by (simp add: example_config_def)
  have p: "fst (process_index example_config broken_env (VStr ''idx_a'') initial) = Inl IndexError"
    by (simp add: index_defs run_defs example_config_def broken_env_def initial_def)
  show ?thesis
    using empty_result_raises_index_error
            [OF nd, where e = broken_env and s = "initial\<lparr>execs := 2\<rparr>" and t = example_locals
               and b = "''CREATE INDEX CONCURRENTLY idx_a_new ON tab (a)''" and k = 1 and rest = "[2]"]
          empty_result_raises_index_error
            [OF nd, where e = broken_env and s = "initial\<lparr>execs := 4\<rparr>" and t = example_locals
               and name = "VStr ''idx_a''"]
          empty_result_raises_index_error
            [OF nd, where e = broken_env and s = initial and i = "''idx_a''"
               and others = "[''idx_b'']" and tabs = "[''tab'']"]
          p
    by (simp add: example_config_def broken_env_def example_locals_def initial_def)
qed

text \<open>
  C10. When the listing of a table's indexes comes back empty, \<^verbatim>\<open>process_table\<close>
  returns normally after that one query: the table counter has grown by one, every
  index counter (not-found included) is unchanged and no further statement is issued.
  The result depends on the table only through the empty listing, so a table that does
  not exist and a table without indexes are treated alike.
\<close>

theorem empty_table_listing:
  assumes "clock e (reads s) < halt_time c"
    and "db e (execs s) (idx_names_query tab) = Rows []"
  shows "process_table c e tab s =
           (Inr (), s\<lparr>reads := reads s + 1, tabcount := tabcount s + 1,
                       trace := trace s @ [Executed (idx_names_query tab)],
                       execs := execs s + 1, cursor := Some []\<rparr>)"
  using assms
  by (simp add: process_table_def time_now_def seq_def dbquery_def execute_def fetchall_def Let_def)

theorem empty_table_listing_witness:
  "process_table example_config empty_env ''no_such_table'' initial =
     (Inr (), initial\<lparr>reads := 1, tabcount := 1,
                       trace := [Executed (idx_names_query ''no_such_table'')],
                       execs := 1, cursor := Some []\<rparr>)"
  using empty_table_listing
          [where c = example_config and e = empty_env and s = initial and tab = "''no_such_table''"]
  by (simp add: example_config_def empty_env_def initial_def)

end
